theory Spec2Isabelle
  imports Complex_Main "HOL-Library.Multiset"
begin

section \<open>The JavaScript fragment used by \<open>distance_and_route.js\<close>\<close>

text \<open>
  A JavaScript number is a binary64 value: a finite one, carried as the real number it
  denotes, one of the two infinities, or NaN. \<open>-0\<close> is not distinguished from \<open>0\<close>.
\<close>

datatype jsnum = Fin real | PInf | NInf | NaN

text \<open>
  A value as it reaches the module: a caller's argument or a document produced by
  \<open>res.json()\<close>. An object is the association list of its own properties (the first
  binding of a key is its value). A string is a list of code units.
\<close>

datatype jsval =
    JUndefined
  | JNull
  | JBool bool
  | JNum jsnum
  | JStr string
  | JArr "jsval list"
  | JObj "(string \<times> jsval) list"

text \<open>
  Everything the module can throw. \<open>TypeError\<close> is the engine's error for a property
  read on \<open>undefined\<close>/\<open>null\<close>, a call of a missing method, or iterating a value
  that is not iterable.
\<close>

datatype pname = PointA | PointB | PointsAt nat

datatype error =
    InvalidPoint pname
  | TooFewPoints
  | NetworkFailure
  | HttpError nat
  | JsonSyntaxError
  | GoogleApiError jsval
  | GoogleElementError jsval
  | GoogleDirectionsError jsval
  | OsrmError jsval
  | OsrmNoRoute
  | OsrmTableError jsval
  | OsrmTripError jsval
  | TypeError
  | RangeError

text \<open>
  What the engine computes is taken as a parameter. Two conversions: the parsing of a
  string as a number (\<open>StringToNumber\<close>) and the printing of a number
  (\<open>NumberToString\<close>), which the model asks for every number but a natural number below
  \<open>2\<^sup>5\<^sup>3\<close>, printed in decimal digits. The binary64 arithmetic: the rounding of a
  real number to binary64 (\<open>round64\<close>, to a finite number or to an infinity), and the
  engine's approximations of the sine, the cosine and the two-argument arctangent
  (\<open>sin64\<close>, \<open>cos64\<close>, \<open>atan2_64\<close>).
\<close>

record runtime =
  StringToNumber :: "string \<Rightarrow> jsnum"
  NumberToString :: "jsnum \<Rightarrow> string"
  round64 :: "real \<Rightarrow> jsnum"
  sin64 :: "real \<Rightarrow> jsnum"
  cos64 :: "real \<Rightarrow> jsnum"
  atan2_64 :: "jsnum \<Rightarrow> jsnum \<Rightarrow> jsnum"

definition ebind :: "error + 'a \<Rightarrow> ('a \<Rightarrow> error + 'b) \<Rightarrow> error + 'b" where
  "ebind m f = (case m of Inl e \<Rightarrow> Inl e | Inr v \<Rightarrow> f v)"

subsection \<open>Truthiness, property reads, coercions\<close>

fun truthy :: "jsval \<Rightarrow> bool" where
  "truthy JUndefined = False"
| "truthy JNull = False"
| "truthy (JBool b) = b"
| "truthy (JNum (Fin x)) = (x \<noteq> 0)"
| "truthy (JNum NaN) = False"
| "truthy (JNum PInf) = True"
| "truthy (JNum NInf) = True"
| "truthy (JStr s) = (s \<noteq> [])"
| "truthy (JArr xs) = True"
| "truthy (JObj kvs) = True"

definition digit_char :: "nat \<Rightarrow> char" where
  "digit_char d = char_of (48 + d)"

fun dec :: "nat \<Rightarrow> string" where
  "dec n = (if n < 10 then [digit_char n] else dec (n div 10) @ [digit_char (n mod 10)])"

declare dec.simps [simp del]

text \<open>The own property \<open>k\<close> of an object, \<open>undefined\<close> when it has none.\<close>

definition own_prop :: "(string \<times> jsval) list \<Rightarrow> string \<Rightarrow> jsval" where
  "own_prop kvs k = (case map_of kvs k of Some v \<Rightarrow> v | None \<Rightarrow> JUndefined)"

text \<open>\<open>v.k\<close> for a property name \<open>k\<close> that is not an array index.\<close>

fun get :: "jsval \<Rightarrow> string \<Rightarrow> error + jsval" where
  "get JUndefined k = Inl TypeError"
| "get JNull k = Inl TypeError"
| "get (JObj kvs) k = Inr (own_prop kvs k)"
| "get (JArr xs) k = Inr (if k = ''length'' then JNum (Fin (real (length xs))) else JUndefined)"
| "get (JStr s) k = Inr (if k = ''length'' then JNum (Fin (real (length s))) else JUndefined)"
| "get (JBool b) k = Inr JUndefined"
| "get (JNum n) k = Inr JUndefined"

text \<open>\<open>v[i]\<close> for an index \<open>i\<close>.\<close>

fun idx :: "jsval \<Rightarrow> nat \<Rightarrow> error + jsval" where
  "idx JUndefined i = Inl TypeError"
| "idx JNull i = Inl TypeError"
| "idx (JArr xs) i = Inr (if i < length xs then xs ! i else JUndefined)"
| "idx (JStr s) i = Inr (if i < length s then JStr [s ! i] else JUndefined)"
| "idx (JObj kvs) i = Inr (own_prop kvs (dec i))"
| "idx (JBool b) i = Inr JUndefined"
| "idx (JNum n) i = Inr JUndefined"

text \<open>\<open>a && b\<close> and \<open>a || b\<close>, the right operand being evaluated only when it is needed.\<close>

definition js_and :: "jsval \<Rightarrow> (jsval \<Rightarrow> error + jsval) \<Rightarrow> error + jsval" where
  "js_and a f = (if truthy a then f a else Inr a)"

definition js_or :: "jsval \<Rightarrow> jsval \<Rightarrow> jsval" where
  "js_or a b = (if truthy a then a else b)"

fun intercalate :: "string \<Rightarrow> string list \<Rightarrow> string" where
  "intercalate sep [] = []"
| "intercalate sep [s] = s"
| "intercalate sep (s # t # ss) = s @ sep @ intercalate sep (t # ss)"

text \<open>\<open>String(v)\<close>.\<close>

fun to_string :: "runtime \<Rightarrow> jsval \<Rightarrow> string" where
  "to_string rt JUndefined = ''undefined''"
| "to_string rt JNull = ''null''"
| "to_string rt (JBool b) = (if b then ''true'' else ''false'')"
| "to_string rt (JNum n) =
     (case n of
        Fin x \<Rightarrow> if 0 \<le> x \<and> x = of_int \<lfloor>x\<rfloor> \<and> x < 2 ^ 53 then dec (nat \<lfloor>x\<rfloor>)
                 else NumberToString rt n
      | _ \<Rightarrow> NumberToString rt n)"
| "to_string rt (JStr s) = s"
| "to_string rt (JArr xs) =
     intercalate '','' (map (\<lambda>x. if x = JUndefined \<or> x = JNull then [] else to_string rt x) xs)"
| "to_string rt (JObj kvs) = ''[object Object]''"

text \<open>\<open>Number(v)\<close>.\<close>

fun Number_js :: "runtime \<Rightarrow> jsval \<Rightarrow> jsnum" where
  "Number_js rt JUndefined = NaN"
| "Number_js rt JNull = Fin 0"
| "Number_js rt (JBool b) = (if b then Fin 1 else Fin 0)"
| "Number_js rt (JNum n) = n"
| "Number_js rt (JStr s) = StringToNumber rt s"
| "Number_js rt (JArr xs) = StringToNumber rt (to_string rt (JArr xs))"
| "Number_js rt (JObj kvs) = StringToNumber rt (to_string rt (JObj kvs))"

subsection \<open>Arithmetic on numbers\<close>

text \<open>
  The operators \<open>+\<close>, \<open>-\<close>, \<open>*\<close>, \<open>/\<close> and \<open>Math.sqrt\<close> return the exact result
  rounded to binary64. An integer of magnitude at most \<open>2\<^sup>5\<^sup>3\<close> is a binary64 number
  and is its own rounding; every other rounding is the engine's. On infinities and NaN the
  operators follow IEEE 754.
\<close>

definition exact_int :: "real \<Rightarrow> bool" where
  "exact_int x = (x = of_int \<lfloor>x\<rfloor> \<and> \<bar>x\<bar> \<le> 2 ^ 53)"

definition rnd :: "runtime \<Rightarrow> real \<Rightarrow> jsnum" where
  "rnd rt x = (if exact_int x then Fin x else round64 rt x)"

fun js_neg :: "jsnum \<Rightarrow> jsnum" where
  "js_neg (Fin x) = Fin (- x)"
| "js_neg PInf = NInf"
| "js_neg NInf = PInf"
| "js_neg NaN = NaN"

fun js_add :: "runtime \<Rightarrow> jsnum \<Rightarrow> jsnum \<Rightarrow> jsnum" where
  "js_add rt (Fin x) (Fin y) = rnd rt (x + y)"
| "js_add rt NaN b = NaN"
| "js_add rt a NaN = NaN"
| "js_add rt PInf NInf = NaN"
| "js_add rt NInf PInf = NaN"
| "js_add rt PInf b = PInf"
| "js_add rt NInf b = NInf"
| "js_add rt a PInf = PInf"
| "js_add rt a NInf = NInf"

definition js_sub :: "runtime \<Rightarrow> jsnum \<Rightarrow> jsnum \<Rightarrow> jsnum" where
  "js_sub rt a b = js_add rt a (js_neg b)"

text \<open>The sign of a number that is not NaN: \<open>-1\<close>, \<open>0\<close> or \<open>1\<close>.\<close>

fun js_sign :: "jsnum \<Rightarrow> int" where
  "js_sign (Fin x) = (if x < 0 then - 1 else if x = 0 then 0 else 1)"
| "js_sign PInf = 1"
| "js_sign NInf = - 1"
| "js_sign NaN = 0"

definition signed_inf :: "int \<Rightarrow> jsnum" where
  "signed_inf s = (if s < 0 then NInf else PInf)"

definition js_mul :: "runtime \<Rightarrow> jsnum \<Rightarrow> jsnum \<Rightarrow> jsnum" where
  "js_mul rt a b =
     (case (a, b) of
        (Fin x, Fin y) \<Rightarrow> rnd rt (x * y)
      | _ \<Rightarrow> if a = NaN \<or> b = NaN \<or> js_sign a * js_sign b = 0 then NaN
             else signed_inf (js_sign a * js_sign b))"

text \<open>Division; a zero divisor is taken as \<open>+0\<close>.\<close>

fun js_div :: "runtime \<Rightarrow> jsnum \<Rightarrow> jsnum \<Rightarrow> jsnum" where
  "js_div rt NaN b = NaN"
| "js_div rt a NaN = NaN"
| "js_div rt (Fin x) (Fin y) =
     (if y \<noteq> 0 then rnd rt (x / y) else if x = 0 then NaN else signed_inf (js_sign (Fin x)))"
| "js_div rt (Fin x) b = Fin 0"
| "js_div rt a (Fin y) = signed_inf (js_sign a * (if y < 0 then - 1 else 1))"
| "js_div rt a b = NaN"

text \<open>\<open>a < b\<close> on numbers is exact.\<close>

fun js_lt :: "jsnum \<Rightarrow> jsnum \<Rightarrow> bool" where
  "js_lt (Fin x) (Fin y) = (x < y)"
| "js_lt NaN b = False"
| "js_lt a NaN = False"
| "js_lt a NInf = False"
| "js_lt PInf b = False"
| "js_lt a PInf = True"
| "js_lt NInf b = True"

text \<open>\<open>Number.isFinite\<close>\<close>

definition finite_num :: "jsnum \<Rightarrow> bool" where
  "finite_num a = (case a of Fin x \<Rightarrow> True | _ \<Rightarrow> False)"

text \<open>
  \<open>Math.sin\<close>, \<open>Math.cos\<close> and \<open>Math.atan2\<close> are implementation-approximated: the
  language fixes their values at zero, at the infinities and at NaN, and leaves the rest
  to the engine. \<open>Math.PI\<close> is the binary64 number nearest to \<open>\<pi>\<close>.
\<close>

fun Math_sin :: "runtime \<Rightarrow> jsnum \<Rightarrow> jsnum" where
  "Math_sin rt (Fin x) = (if x = 0 then Fin 0 else sin64 rt x)"
| "Math_sin rt a = NaN"

fun Math_cos :: "runtime \<Rightarrow> jsnum \<Rightarrow> jsnum" where
  "Math_cos rt (Fin x) = (if x = 0 then Fin 1 else cos64 rt x)"
| "Math_cos rt a = NaN"

fun Math_sqrt :: "runtime \<Rightarrow> jsnum \<Rightarrow> jsnum" where
  "Math_sqrt rt (Fin x) = (if x < 0 then NaN else rnd rt (sqrt x))"
| "Math_sqrt rt PInf = PInf"
| "Math_sqrt rt a = NaN"

definition Math_atan2 :: "runtime \<Rightarrow> jsnum \<Rightarrow> jsnum \<Rightarrow> jsnum" where
  "Math_atan2 rt y x =
     (if y = NaN \<or> x = NaN then NaN
      else if y = Fin 0 \<and> js_lt (Fin 0) x then Fin 0
      else atan2_64 rt y x)"

definition Math_PI :: "runtime \<Rightarrow> jsnum" where
  "Math_PI rt = round64 rt pi"

text \<open>\<open>Math.round\<close> is exact: the nearest integer, a tie going up.\<close>

fun Math_round :: "jsnum \<Rightarrow> jsnum" where
  "Math_round (Fin x) = Fin (of_int \<lfloor>x + 1 / 2\<rfloor>)"
| "Math_round a = a"

section \<open>Points\<close>

record point =
  lat :: jsnum
  lng :: jsnum

text \<open>
  \<open>_toPoint\<close>; \<open>None\<close> is its \<open>null\<close>. Arrays and objects are truthy, so the first
  guard (\<open>!p && p !== 0\<close>) lets them through; every other value, the number \<open>0\<close>
  included, is neither an array nor of type \<open>"object"\<close> with the wanted keys and ends
  in \<open>null\<close>.
\<close>

fun toPoint :: "runtime \<Rightarrow> jsval \<Rightarrow> point option" where
  "toPoint rt (JArr xs) =
     Some \<lparr>lat = Number_js rt (if 0 < length xs then xs ! 0 else JUndefined),
           lng = Number_js rt (if 1 < length xs then xs ! 1 else JUndefined)\<rparr>"
| "toPoint rt (JObj kvs) =
     (if own_prop kvs ''lat'' \<noteq> JUndefined \<and> own_prop kvs ''lng'' \<noteq> JUndefined
      then Some \<lparr>lat = Number_js rt (own_prop kvs ''lat''), lng = Number_js rt (own_prop kvs ''lng'')\<rparr>
      else if own_prop kvs ''latitude'' \<noteq> JUndefined \<and> own_prop kvs ''longitude'' \<noteq> JUndefined
      then Some \<lparr>lat = Number_js rt (own_prop kvs ''latitude''),
                 lng = Number_js rt (own_prop kvs ''longitude'')\<rparr>
      else None)"
| "toPoint rt p = None"

text \<open>\<open>_validatePoint\<close>: the only check is \<open>Number.isNaN\<close> on each coordinate.\<close>

definition validatePoint :: "runtime \<Rightarrow> jsval \<Rightarrow> pname \<Rightarrow> error + point" where
  "validatePoint rt p name =
     (case toPoint rt p of
        None \<Rightarrow> Inl (InvalidPoint name)
      | Some pt \<Rightarrow> if lat pt = NaN \<or> lng pt = NaN then Inl (InvalidPoint name) else Inr pt)"

section \<open>Haversine distance\<close>

definition toRad :: "runtime \<Rightarrow> jsnum \<Rightarrow> jsnum" where
  "toRad rt d = js_div rt (js_mul rt d (Math_PI rt)) (Fin 180)"

text \<open>The \<open>h\<close> of \<open>_haversine\<close>.\<close>

definition haversine_h :: "runtime \<Rightarrow> point \<Rightarrow> point \<Rightarrow> jsnum" where
  "haversine_h rt a b =
     (let phi1 = toRad rt (lat a);
          phi2 = toRad rt (lat b);
          dphi = toRad rt (js_sub rt (lat b) (lat a));
          dlam = toRad rt (js_sub rt (lng b) (lng a));
          sin_dphi = Math_sin rt (js_div rt dphi (Fin 2));
          sin_dlam = Math_sin rt (js_div rt dlam (Fin 2))
      in js_add rt (js_mul rt sin_dphi sin_dphi)
           (js_mul rt (js_mul rt (js_mul rt (Math_cos rt phi1) (Math_cos rt phi2)) sin_dlam)
              sin_dlam))"

definition haversine :: "runtime \<Rightarrow> point \<Rightarrow> point \<Rightarrow> jsnum" where
  "haversine rt a b =
     (let h = haversine_h rt a b;
          c = js_mul rt (Fin 2)
                (Math_atan2 rt (Math_sqrt rt h) (Math_sqrt rt (js_sub rt (Fin 1) h)))
      in js_mul rt (Fin 6371000) c)"

section \<open>The network\<close>

text \<open>
  A request is what the URL and the body of a \<open>fetch\<close> are built from. The network
  answers the \<open>n\<close>-th request of a call with no response at all, or with a status
  code and a body, which is a JSON document or not.
\<close>

datatype request =
    GoogleDistanceMatrix "point list" "point list" jsval
  | OrsMatrix string "point list" jsval
  | OsrmRoute string "point list"
  | OsrmTable string "point list"
  | GoogleDirections point point "point list" jsval
  | OsrmTrip string "point list" bool

datatype response = NoResponse | Response nat "jsval option"

type_synonym network = "nat \<Rightarrow> request \<Rightarrow> response"

text \<open>\<open>_fetchJson\<close>: \<open>res.ok\<close> is a status in 200..299.\<close>

definition fetchJson :: "response \<Rightarrow> error + jsval" where
  "fetchJson res =
     (case res of
        NoResponse \<Rightarrow> Inl NetworkFailure
      | Response st body \<Rightarrow>
          if 200 \<le> st \<and> st \<le> 299
          then (case body of None \<Rightarrow> Inl JsonSyntaxError | Some j \<Rightarrow> Inr j)
          else Inl (HttpError st))"

record options =
  provider :: jsval
  profile :: jsval
  googleApiKey :: jsval
  openRouteServiceApiKey :: jsval
  roundtrip :: jsval

definition provider_of :: "options \<Rightarrow> jsval" where
  "provider_of opts = js_or (provider opts) (JStr ''auto'')"

definition profile_of :: "runtime \<Rightarrow> options \<Rightarrow> string" where
  "profile_of rt opts = to_string rt (js_or (profile opts) (JStr ''driving''))"

definition use_google :: "options \<Rightarrow> bool" where
  "use_google opts =
     ((provider_of opts = JStr ''google'' \<or> provider_of opts = JStr ''auto'')
      \<and> truthy (googleApiKey opts))"

definition use_ors :: "options \<Rightarrow> bool" where
  "use_ors opts =
     ((provider_of opts = JStr ''ors'' \<or> provider_of opts = JStr ''openrouteservice''
        \<or> provider_of opts = JStr ''auto'')
      \<and> truthy (openRouteServiceApiKey opts))"

definition use_osrm :: "options \<Rightarrow> bool" where
  "use_osrm opts = (provider_of opts = JStr ''osrm'' \<or> provider_of opts = JStr ''auto'')"

section \<open>\<open>calculateDistance\<close>\<close>

record distance_result =
  distance :: jsval
  duration :: "jsval option"
  unit :: string

text \<open>\<open>data.rows && data.rows[0] && data.rows[0].elements && data.rows[0].elements[0]\<close>\<close>

definition first_element :: "jsval \<Rightarrow> error + jsval" where
  "first_element data =
     ebind (get data ''rows'') (\<lambda>rows.
       js_and rows (\<lambda>rows. ebind (idx rows 0) (\<lambda>row.
         js_and row (\<lambda>row. ebind (get row ''elements'') (\<lambda>elements.
           js_and elements (\<lambda>elements. idx elements 0))))))"

definition google_pair :: "jsval \<Rightarrow> error + distance_result" where
  "google_pair data =
     ebind (get data ''status'') (\<lambda>status.
       if status \<noteq> JStr ''OK'' then Inl (GoogleApiError status)
       else ebind (first_element data) (\<lambda>c.
         let cell = js_or c (JObj []) in
         ebind (get cell ''status'') (\<lambda>cstatus.
           if cstatus \<noteq> JStr ''OK'' then Inl (GoogleElementError cstatus)
           else ebind (get cell ''distance'') (\<lambda>d. ebind (get d ''value'') (\<lambda>dv.
                ebind (get cell ''duration'') (\<lambda>t.
                ebind (if truthy t then get t ''value'' else Inr JUndefined) (\<lambda>tv.
                  Inr \<lparr>distance = dv, duration = Some tv, unit = ''meters''\<rparr>)))))))"

text \<open>\<open>m && m[0] && m[0][1]\<close>\<close>

definition cell01 :: "jsval \<Rightarrow> error + jsval" where
  "cell01 m = js_and m (\<lambda>m. ebind (idx m 0) (\<lambda>row. js_and row (\<lambda>row. idx row 1)))"

definition ors_pair :: "runtime \<Rightarrow> point \<Rightarrow> point \<Rightarrow> jsval \<Rightarrow> error + distance_result" where
  "ors_pair rt A B resp =
     ebind (get resp ''distances'') (\<lambda>ds. ebind (cell01 ds) (\<lambda>d.
     ebind (get resp ''durations'') (\<lambda>ts. ebind (cell01 ts) (\<lambda>t.
       Inr \<lparr>distance = js_or d (JNum (haversine rt A B)),
            duration = Some (js_or t JUndefined),
            unit = ''meters''\<rparr>))))"

text \<open>The two requests of the OpenRouteService branch: the second is made when the first fails.\<close>

definition ors_fetch :: "network \<Rightarrow> string \<Rightarrow> point \<Rightarrow> point \<Rightarrow> jsval \<Rightarrow> error + jsval" where
  "ors_fetch net prof A B key =
     (case fetchJson (net 0 (OrsMatrix ''foot-walking'' [A, B] key)) of
        Inr resp \<Rightarrow> Inr resp
      | Inl err \<Rightarrow> fetchJson (net 1 (OrsMatrix prof [A, B] key)))"

definition osrm_pair :: "jsval \<Rightarrow> error + distance_result" where
  "osrm_pair data =
     ebind (get data ''code'') (\<lambda>code.
       if truthy code \<and> code \<noteq> JStr ''Ok'' then Inl (OsrmError code)
       else ebind (get data ''routes'') (\<lambda>routes.
            ebind (js_and routes (\<lambda>routes. idx routes 0)) (\<lambda>r.
              let route = js_or r JNull in
              if \<not> truthy route then Inl OsrmNoRoute
              else ebind (get route ''distance'') (\<lambda>d. ebind (get route ''duration'') (\<lambda>t.
                     Inr \<lparr>distance = d, duration = Some t, unit = ''meters''\<rparr>)))))"

text \<open>The last step: the rounded straight-line distance, with no \<open>duration\<close> key.\<close>

definition haversine_result :: "runtime \<Rightarrow> point \<Rightarrow> point \<Rightarrow> distance_result" where
  "haversine_result rt A B =
     \<lparr>distance = JNum (Math_round (haversine rt A B)), duration = None, unit = ''meters''\<rparr>"

definition calculateDistance ::
  "runtime \<Rightarrow> network \<Rightarrow> jsval \<Rightarrow> jsval \<Rightarrow> options \<Rightarrow> error + distance_result" where
  "calculateDistance rt net a b opts =
     ebind (validatePoint rt a PointA) (\<lambda>A.
     ebind (validatePoint rt b PointB) (\<lambda>B.
       if use_google opts then
         ebind (fetchJson (net 0 (GoogleDistanceMatrix [A] [B] (googleApiKey opts)))) google_pair
       else if use_ors opts then
         ebind (ors_fetch net (profile_of rt opts) A B (openRouteServiceApiKey opts)) (ors_pair rt A B)
       else if use_osrm opts then
         (case ebind (fetchJson (net 0 (OsrmRoute (profile_of rt opts) [A, B]))) osrm_pair of
            Inr res \<Rightarrow> Inr res
          | Inl err \<Rightarrow> Inr (haversine_result rt A B))
       else Inr (haversine_result rt A B)))"

text \<open>\<open>getEstimatedTime\<close>: \<open>res.duration ?? null\<close>.\<close>

definition getEstimatedTime ::
  "runtime \<Rightarrow> network \<Rightarrow> jsval \<Rightarrow> jsval \<Rightarrow> options \<Rightarrow> error + jsval" where
  "getEstimatedTime rt net a b opts =
     ebind (calculateDistance rt net a b opts) (\<lambda>res.
       Inr (case duration res of
              None \<Rightarrow> JNull
            | Some t \<Rightarrow> if t = JUndefined \<or> t = JNull then JNull else t))"

section \<open>\<open>getDistanceMatrix\<close>\<close>

fun traverse :: "('a \<Rightarrow> error + 'b) \<Rightarrow> 'a list \<Rightarrow> error + 'b list" where
  "traverse f [] = Inr []"
| "traverse f (x # xs) = ebind (f x) (\<lambda>y. ebind (traverse f xs) (\<lambda>ys. Inr (y # ys)))"

fun validatePoints :: "runtime \<Rightarrow> nat \<Rightarrow> jsval list \<Rightarrow> error + point list" where
  "validatePoints rt i [] = Inr []"
| "validatePoints rt i (p # ps) =
     ebind (validatePoint rt p (PointsAt i)) (\<lambda>pt.
     ebind (validatePoints rt (Suc i) ps) (\<lambda>pts. Inr (pt # pts)))"

text \<open>The first two statements of \<open>getDistanceMatrix\<close> and of \<open>optimizeRoute\<close>.\<close>

definition check_points :: "runtime \<Rightarrow> jsval \<Rightarrow> error + point list" where
  "check_points rt points =
     (case points of
        JArr ps \<Rightarrow> if length ps < 2 then Inl TooFewPoints else validatePoints rt 0 ps
      | _ \<Rightarrow> Inl TooFewPoints)"

record matrix_result =
  distances :: jsval
  durations :: jsval
  matrix_unit :: string

text \<open>
  The number of indices \<open>i = 0, 1, \<dots>\<close> with \<open>i < L\<close>, for a value \<open>L\<close> read
  from a \<open>length\<close> property; \<open>None\<close> when every index is below \<open>L\<close>.
\<close>

definition loop_count :: "runtime \<Rightarrow> jsval \<Rightarrow> nat option" where
  "loop_count rt L =
     (case Number_js rt L of
        Fin x \<Rightarrow> Some (nat \<lceil>x\<rceil>)
      | PInf \<Rightarrow> None
      | NInf \<Rightarrow> Some 0
      | NaN \<Rightarrow> Some 0)"

definition max_array_length :: nat where
  "max_array_length = 4294967295"

text \<open>
  \<open>for (let i = 0; i < L; i++) out.push(body(i))\<close>. An array holds at most
  \<open>2\<^sup>3\<^sup>2 - 1\<close> elements: the \<open>push\<close> onto a full array throws a \<open>RangeError\<close>.
  (Only a \<open>length\<close> property of an object can ask for that many turns.)
\<close>

definition for_index :: "nat option \<Rightarrow> (nat \<Rightarrow> error + 'a) \<Rightarrow> error + 'a list" where
  "for_index turns body =
     (case turns of
        Some n \<Rightarrow>
          if n \<le> max_array_length then traverse body [0..<n]
          else ebind (traverse body [0..<max_array_length + 1]) (\<lambda>out. Inl RangeError)
      | None \<Rightarrow> ebind (traverse body [0..<max_array_length + 1]) (\<lambda>out. Inl RangeError))"

definition google_cell :: "jsval \<Rightarrow> error + jsval \<times> jsval" where
  "google_cell elem =
     (if truthy elem then
        ebind (get elem ''status'') (\<lambda>status.
          if status = JStr ''OK'' then
            ebind (get elem ''distance'') (\<lambda>d. ebind (get d ''value'') (\<lambda>dv.
            ebind (get elem ''duration'') (\<lambda>t.
            ebind (if truthy t then get t ''value'' else Inr JNull) (\<lambda>tv. Inr (dv, tv)))))
          else Inr (JNull, JNull))
      else Inr (JNull, JNull))"

definition google_row :: "runtime \<Rightarrow> jsval \<Rightarrow> error + jsval \<times> jsval" where
  "google_row rt row =
     ebind (get row ''elements'') (\<lambda>elements.
     ebind (get elements ''length'') (\<lambda>L.
     ebind (for_index (loop_count rt L) (\<lambda>c. ebind (idx elements c) google_cell)) (\<lambda>cells.
       Inr (JArr (map fst cells), JArr (map snd cells)))))"

definition google_matrix :: "runtime \<Rightarrow> jsval \<Rightarrow> error + matrix_result" where
  "google_matrix rt data =
     ebind (get data ''status'') (\<lambda>status.
       if status \<noteq> JStr ''OK'' then Inl (GoogleApiError status)
       else ebind (get data ''rows'') (\<lambda>rows.
            ebind (get rows ''length'') (\<lambda>L.
            ebind (for_index (loop_count rt L) (\<lambda>r. ebind (idx rows r) (google_row rt))) (\<lambda>rs.
              Inr \<lparr>distances = JArr (map fst rs), durations = JArr (map snd rs),
                   matrix_unit = ''meters''\<rparr>))))"

definition ors_matrix :: "jsval \<Rightarrow> error + matrix_result" where
  "ors_matrix resp =
     ebind (get resp ''distances'') (\<lambda>ds.
     ebind (get resp ''durations'') (\<lambda>ts.
       Inr \<lparr>distances = js_or ds JNull, durations = js_or ts JNull, matrix_unit = ''meters''\<rparr>))"

definition osrm_matrix :: "jsval \<Rightarrow> error + matrix_result" where
  "osrm_matrix data =
     ebind (get data ''code'') (\<lambda>code.
       if truthy code \<and> code \<noteq> JStr ''Ok'' then Inl (OsrmTableError code)
       else ebind (get data ''distances'') (\<lambda>ds.
            ebind (get data ''durations'') (\<lambda>ts.
              Inr \<lparr>distances = js_or ds JNull, durations = js_or ts JNull,
                   matrix_unit = ''meters''\<rparr>)))"

text \<open>The matrix computed when no provider is selected.\<close>

definition haversine_matrix :: "runtime \<Rightarrow> point list \<Rightarrow> matrix_result" where
  "haversine_matrix rt pts =
     (let n = length pts in
      \<lparr>distances = JArr (map (\<lambda>i. JArr (map (\<lambda>j.
           if i = j then JNum (Fin 0) else JNum (Math_round (haversine rt (pts ! i) (pts ! j))))
           [0..<n])) [0..<n]),
       durations = JArr (map (\<lambda>i. JArr (map (\<lambda>j.
           if i = j then JNum (Fin 0) else JNull) [0..<n])) [0..<n]),
       matrix_unit = ''meters''\<rparr>)"

text \<open>\<open>m[i][j]\<close>\<close>

definition matrix_cell :: "jsval \<Rightarrow> nat \<Rightarrow> nat \<Rightarrow> error + jsval" where
  "matrix_cell m i j = ebind (idx m i) (\<lambda>row. idx row j)"

definition getDistanceMatrix ::
  "runtime \<Rightarrow> network \<Rightarrow> jsval \<Rightarrow> options \<Rightarrow> error + matrix_result" where
  "getDistanceMatrix rt net points opts =
     ebind (check_points rt points) (\<lambda>pts.
       if use_google opts then
         ebind (fetchJson (net 0 (GoogleDistanceMatrix pts pts (googleApiKey opts))))
           (google_matrix rt)
       else if use_ors opts then
         ebind (fetchJson (net 0 (OrsMatrix (profile_of rt opts) pts (openRouteServiceApiKey opts))))
           ors_matrix
       else if use_osrm opts then
         ebind (fetchJson (net 0 (OsrmTable (profile_of rt opts) pts))) osrm_matrix
       else Inr (haversine_matrix rt pts))"

section \<open>\<open>optimizeRoute\<close>\<close>

text \<open>
  An element of \<open>waypoints\<close> is a point or, where the Google branch reads \<open>pts\<close> at a
  key that is not one of its indices, \<open>undefined\<close> (\<open>None\<close>).
\<close>

record route_result =
  waypoints :: "point option list"
  waypointsOrder :: jsval
  route_distance :: jsval
  route_duration :: jsval
  route_provider :: string

text \<open>\<open>a + b\<close>: concatenation when an operand is, or converts to, a string.\<close>

definition to_primitive :: "runtime \<Rightarrow> jsval \<Rightarrow> jsval" where
  "to_primitive rt v =
     (case v of JArr xs \<Rightarrow> JStr (to_string rt v) | JObj kvs \<Rightarrow> JStr (to_string rt v) | _ \<Rightarrow> v)"

definition is_string :: "jsval \<Rightarrow> bool" where
  "is_string v = (case v of JStr s \<Rightarrow> True | _ \<Rightarrow> False)"

definition js_plus :: "runtime \<Rightarrow> jsval \<Rightarrow> jsval \<Rightarrow> jsval" where
  "js_plus rt a b =
     (let pa = to_primitive rt a; pb = to_primitive rt b in
      if is_string pa \<or> is_string pb then JStr (to_string rt pa @ to_string rt pb)
      else JNum (js_add rt (Number_js rt pa) (Number_js rt pb)))"

text \<open>
  \<open>pts[key]\<close> for the array \<open>pts\<close> of validated points and a key that is a number or
  a string other than \<open>"length"\<close>: the element at the index the key denotes, if any.
\<close>

definition pts_at :: "point list \<Rightarrow> jsval \<Rightarrow> point option" where
  "pts_at pts key =
     (case key of
        JNum (Fin x) \<Rightarrow>
          if 0 \<le> x \<and> x = of_int \<lfloor>x\<rfloor> \<and> nat \<lfloor>x\<rfloor> < length pts then Some (pts ! nat \<lfloor>x\<rfloor>)
          else None
      | JStr s \<Rightarrow>
          (case find (\<lambda>i. dec i = s) [0..<length pts] of
             Some i \<Rightarrow> Some (pts ! i)
           | None \<Rightarrow> None)
      | _ \<Rightarrow> None)"

text \<open>The values a \<open>for \<dots> of\<close> loop or an array pattern draws from a value.\<close>

definition iter_values :: "jsval \<Rightarrow> error + jsval list" where
  "iter_values v =
     (case v of
        JArr xs \<Rightarrow> Inr xs
      | JStr s \<Rightarrow> Inr (map (\<lambda>c. JStr [c]) s)
      | _ \<Rightarrow> Inl TypeError)"

definition nth_or_undefined :: "jsval list \<Rightarrow> nat \<Rightarrow> jsval" where
  "nth_or_undefined xs i = (if i < length xs then xs ! i else JUndefined)"

text \<open>\<open>legs.reduce((s, l) => s + (l[k] ? l[k].value : 0), 0)\<close>\<close>

fun sum_legs :: "runtime \<Rightarrow> string \<Rightarrow> jsval \<Rightarrow> jsval list \<Rightarrow> error + jsval" where
  "sum_legs rt k s [] = Inr s"
| "sum_legs rt k s (l # ls) =
     ebind (get l k) (\<lambda>d.
     ebind (if truthy d then get d ''value'' else Inr (JNum (Fin 0))) (\<lambda>x.
       sum_legs rt k (js_plus rt s x) ls))"

text \<open>\<open>route.legs ? route.legs.reduce(\<dots>) : null\<close>; only an array has \<open>reduce\<close>.\<close>

definition legs_total :: "runtime \<Rightarrow> string \<Rightarrow> jsval \<Rightarrow> error + jsval" where
  "legs_total rt k route =
     ebind (get route ''legs'') (\<lambda>legs.
       if truthy legs then
         (case legs of JArr ls \<Rightarrow> sum_legs rt k (JNum (Fin 0)) ls | _ \<Rightarrow> Inl TypeError)
       else Inr JNull)"

definition google_reordered :: "runtime \<Rightarrow> point list \<Rightarrow> jsval \<Rightarrow> error + point option list" where
  "google_reordered rt pts waypointOrder =
     (if 2 < length pts then
        ebind (iter_values waypointOrder) (\<lambda>order.
          Inr ([Some (pts ! 0)]
               @ map (\<lambda>i. pts_at pts (js_plus rt (JNum (Fin 1)) i)) order
               @ [Some (pts ! (length pts - 1))]))
      else Inr [Some (pts ! 0), Some (pts ! 1)])"

definition google_route :: "runtime \<Rightarrow> point list \<Rightarrow> jsval \<Rightarrow> error + route_result" where
  "google_route rt pts data =
     ebind (get data ''status'') (\<lambda>status.
       if status \<noteq> JStr ''OK'' then Inl (GoogleDirectionsError status)
       else ebind (get data ''routes'') (\<lambda>routes.
            ebind (js_and routes (\<lambda>routes. idx routes 0)) (\<lambda>route.
            ebind (js_and route (\<lambda>route. get route ''waypoint_order'')) (\<lambda>wo.
              let waypointOrder = (if truthy wo then wo else JArr []) in
              ebind (google_reordered rt pts waypointOrder) (\<lambda>reordered.
              ebind (legs_total rt ''distance'' route) (\<lambda>dist.
              ebind (legs_total rt ''duration'' route) (\<lambda>dur.
                Inr \<lparr>waypoints = reordered, waypointsOrder = waypointOrder,
                     route_distance = dist, route_duration = dur,
                     route_provider = ''google''\<rparr>)))))))"

definition nullish :: "jsval \<Rightarrow> bool" where
  "nullish v = (v = JUndefined \<or> v = JNull)"

text \<open>
  \<open>ws.slice().sort((a, b) => a.waypoint_index - b.waypoint_index)\<close>. In the source each
  sort is followed by a read of a property of every element, so an array that holds
  \<open>undefined\<close> or \<open>null\<close> ends in a \<open>TypeError\<close>, thrown by the comparator or by that
  read. The sort is stable; the order it gives keys that are not numbers is the engine's,
  here that of an insertion sort.
\<close>

definition waypoint_index :: "runtime \<Rightarrow> jsval \<Rightarrow> jsnum" where
  "waypoint_index rt w =
     Number_js rt (case get w ''waypoint_index'' of Inr v \<Rightarrow> v | Inl err \<Rightarrow> JUndefined)"

definition waypoint_after :: "runtime \<Rightarrow> jsval \<Rightarrow> jsval \<Rightarrow> bool" where
  "waypoint_after rt a b = js_lt (Fin 0) (js_sub rt (waypoint_index rt a) (waypoint_index rt b))"

fun insert_waypoint :: "runtime \<Rightarrow> jsval \<Rightarrow> jsval list \<Rightarrow> jsval list" where
  "insert_waypoint rt a [] = [a]"
| "insert_waypoint rt a (b # bs) =
     (if waypoint_after rt a b then b # insert_waypoint rt a bs else a # b # bs)"

definition sort_waypoints :: "runtime \<Rightarrow> jsval list \<Rightarrow> error + jsval list" where
  "sort_waypoints rt ws =
     (if list_ex nullish ws then Inl TypeError
      else Inr (foldr (insert_waypoint rt) ws []))"

text \<open>\<open>const [lon, lat] = w.location; return { lat: Number(lat), lng: Number(lon) }\<close>\<close>

definition osrm_point :: "runtime \<Rightarrow> jsval \<Rightarrow> error + point" where
  "osrm_point rt w =
     ebind (get w ''location'') (\<lambda>location.
     ebind (iter_values location) (\<lambda>xs.
       Inr \<lparr>lat = Number_js rt (nth_or_undefined xs 1),
            lng = Number_js rt (nth_or_undefined xs 0)\<rparr>))"

text \<open>The unused \<open>order\<close> of the OSRM branch; evaluating it can throw.\<close>

definition osrm_order :: "jsval \<Rightarrow> jsval \<Rightarrow> error + unit" where
  "osrm_order trip wps =
     ebind (js_and trip (\<lambda>trip. get trip ''geometry'')) (\<lambda>g.
       if truthy g \<and> truthy wps then
         (case wps of
            JArr ws \<Rightarrow> ebind (traverse (\<lambda>w. get w ''waypoint_index'') ws) (\<lambda>order. Inr ())
          | _ \<Rightarrow> Inl TypeError)
       else Inr ())"

text \<open>The unused \<open>waypointOrder\<close> of the OSRM branch; evaluating it can throw.\<close>

definition osrm_waypointOrder :: "runtime \<Rightarrow> jsval \<Rightarrow> error + unit" where
  "osrm_waypointOrder rt wps =
     ebind (js_and wps (\<lambda>wps. get wps ''length'')) (\<lambda>len.
       if truthy len then
         (case wps of
            JArr ws \<Rightarrow>
              ebind (sort_waypoints rt ws) (\<lambda>sorted.
              ebind (traverse (\<lambda>wp. get wp ''location'') sorted) (\<lambda>locations. Inr ()))
          | _ \<Rightarrow> Inl TypeError)
       else Inr ())"

definition osrm_orderedPts :: "runtime \<Rightarrow> point list \<Rightarrow> jsval \<Rightarrow> jsval \<Rightarrow> error + point list" where
  "osrm_orderedPts rt pts trip wps =
     ebind (js_and trip (\<lambda>trip. get trip ''legs'')) (\<lambda>legs.
       if truthy legs then
         ebind (js_and wps (\<lambda>wps. ebind (get wps ''length'') (\<lambda>len.
                  Inr (JBool (len = JNum (Fin (real (length pts)))))))) (\<lambda>same_length.
           if truthy same_length then
             (case wps of
                JArr ws \<Rightarrow>
                  ebind (sort_waypoints rt ws) (\<lambda>sorted. traverse (osrm_point rt) sorted)
              | _ \<Rightarrow> Inl TypeError)
           else Inr pts)
       else Inr pts)"

definition osrm_trip :: "runtime \<Rightarrow> point list \<Rightarrow> jsval \<Rightarrow> error + route_result" where
  "osrm_trip rt pts data =
     ebind (get data ''code'') (\<lambda>code.
       if truthy code \<and> code \<noteq> JStr ''Ok'' then Inl (OsrmTripError code)
       else ebind (get data ''trips'') (\<lambda>trips.
            ebind (js_and trips (\<lambda>trips. idx trips 0)) (\<lambda>trip.
            ebind (get data ''waypoints'') (\<lambda>wps.
            ebind (osrm_order trip wps) (\<lambda>order.
            ebind (osrm_waypointOrder rt wps) (\<lambda>waypointOrder.
            ebind (osrm_orderedPts rt pts trip wps) (\<lambda>orderedPts.
            ebind (if truthy trip then get trip ''distance'' else Inr JNull) (\<lambda>dist.
            ebind (if truthy trip then get trip ''duration'' else Inr JNull) (\<lambda>dur.
              Inr \<lparr>waypoints = map Some orderedPts, waypointsOrder = JNull,
                   route_distance = dist, route_duration = dur,
                   route_provider = ''osrm''\<rparr>)))))))))"

subsection \<open>The nearest-neighbour order\<close>

text \<open>
  One turn of the inner loop, at index \<open>j\<close>: \<open>best\<close> is \<open>None\<close> for the source's
  \<open>-1\<close>.
\<close>

definition nn_step ::
  "runtime \<Rightarrow> point list \<Rightarrow> bool list \<Rightarrow> point \<Rightarrow> nat \<Rightarrow> nat option \<times> jsnum
     \<Rightarrow> nat option \<times> jsnum" where
  "nn_step rt pts visited last_pt j acc =
     (if \<not> visited ! j then
        (let d = haversine rt last_pt (pts ! j) in
         if js_lt d (snd acc) then (Some j, d) else acc)
      else acc)"

definition nn_best :: "runtime \<Rightarrow> point list \<Rightarrow> bool list \<Rightarrow> point \<Rightarrow> nat option" where
  "nn_best rt pts visited last_pt =
     fst (fold (nn_step rt pts visited last_pt) [0..<length pts] (None, PInf))"

text \<open>The outer loop, with the number of turns that are left.\<close>

fun nn_loop :: "runtime \<Rightarrow> nat \<Rightarrow> point list \<Rightarrow> bool list \<Rightarrow> nat list \<Rightarrow> nat list" where
  "nn_loop rt 0 pts visited naiveOrder = naiveOrder"
| "nn_loop rt (Suc k) pts visited naiveOrder =
     (case nn_best rt pts visited (pts ! (last naiveOrder)) of
        None \<Rightarrow> naiveOrder
      | Some best \<Rightarrow> nn_loop rt k pts (visited[best := True]) (naiveOrder @ [best]))"

definition naiveOrder :: "runtime \<Rightarrow> point list \<Rightarrow> nat list" where
  "naiveOrder rt pts =
     nn_loop rt (length pts - 1) pts ((replicate (length pts) False)[0 := True]) [0]"

definition naive_route :: "runtime \<Rightarrow> point list \<Rightarrow> route_result" where
  "naive_route rt pts =
     \<lparr>waypoints = map (\<lambda>i. Some (pts ! i)) (naiveOrder rt pts),
      waypointsOrder = JArr (map (\<lambda>i. JNum (Fin (real i))) (naiveOrder rt pts)),
      route_distance = JNull, route_duration = JNull,
      route_provider = ''naive-haversine''\<rparr>"

definition optimizeRoute ::
  "runtime \<Rightarrow> network \<Rightarrow> jsval \<Rightarrow> options \<Rightarrow> error + route_result" where
  "optimizeRoute rt net points opts =
     ebind (check_points rt points) (\<lambda>pts.
       let round = (if roundtrip opts \<noteq> JUndefined then truthy (roundtrip opts) else False) in
       if use_google opts then
         ebind (fetchJson (net 0 (GoogleDirections
                  (pts ! 0)
                  (if 2 < length pts then pts ! (length pts - 1) else pts ! 1)
                  (if 2 < length pts then take (length pts - 2) (drop 1 pts) else [])
                  (googleApiKey opts))))
           (google_route rt pts)
       else if use_osrm opts then
         ebind (fetchJson (net 0 (OsrmTrip (profile_of rt opts) pts round))) (osrm_trip rt pts)
       else Inr (naive_route rt pts))"

text \<open>
  A runtime for the closed examples. None of them parses a string as a number or prints
  a number, and its arithmetic is exact: nothing is rounded, and the sine, the cosine and
  the arctangent are the functions themselves.
\<close>

definition atan2 :: "real \<Rightarrow> real \<Rightarrow> real" where
  "atan2 y x =
     (if 0 < x then arctan (y / x)
      else if x < 0 then (if 0 \<le> y then arctan (y / x) + pi else arctan (y / x) - pi)
      else if 0 < y then pi / 2
      else if y < 0 then - (pi / 2)
      else 0)"

fun exact_atan2 :: "jsnum \<Rightarrow> jsnum \<Rightarrow> jsnum" where
  "exact_atan2 (Fin y) (Fin x) = Fin (atan2 y x)"
| "exact_atan2 NaN b = NaN"
| "exact_atan2 a NaN = NaN"
| "exact_atan2 PInf PInf = Fin (pi / 4)"
| "exact_atan2 PInf NInf = Fin (3 * pi / 4)"
| "exact_atan2 NInf PInf = Fin (- (pi / 4))"
| "exact_atan2 NInf NInf = Fin (- (3 * pi / 4))"
| "exact_atan2 PInf (Fin x) = Fin (pi / 2)"
| "exact_atan2 NInf (Fin x) = Fin (- (pi / 2))"
| "exact_atan2 (Fin y) PInf = Fin 0"
| "exact_atan2 (Fin y) NInf = Fin (if y < 0 then - pi else pi)"

definition rt0 :: runtime where
  "rt0 = \<lparr>StringToNumber = (\<lambda>s. NaN), NumberToString = (\<lambda>n. []),
          round64 = Fin, sin64 = (\<lambda>x. Fin (sin x)), cos64 = (\<lambda>x. Fin (cos x)),
          atan2_64 = exact_atan2\<rparr>"

text \<open>
  The real-valued quantities of the formula in exact arithmetic, at the coordinates
  \<open>(x1, y1)\<close> and \<open>(x2, y2)\<close>.
\<close>

definition hreal :: "real \<Rightarrow> real \<Rightarrow> real \<Rightarrow> real \<Rightarrow> real" where
  "hreal x1 y1 x2 y2 =
     sin ((x2 - x1) * pi / 180 / 2) * sin ((x2 - x1) * pi / 180 / 2)
     + cos (x1 * pi / 180) * cos (x2 * pi / 180)
       * sin ((y2 - y1) * pi / 180 / 2) * sin ((y2 - y1) * pi / 180 / 2)"

definition dist_real :: "real \<Rightarrow> real \<Rightarrow> real \<Rightarrow> real \<Rightarrow> real" where
  "dist_real x1 y1 x2 y2 =
     6371000 * (2 * atan2 (sqrt (hreal x1 y1 x2 y2)) (sqrt (1 - hreal x1 y1 x2 y2)))"

text \<open>Inputs of the closed examples.\<close>

definition js_point :: "real \<Rightarrow> real \<Rightarrow> jsval" where
  "js_point x y = JObj [(''lat'', JNum (Fin x)), (''lng'', JNum (Fin y))]"

definition no_options :: options where
  "no_options = \<lparr>provider = JUndefined, profile = JUndefined, googleApiKey = JUndefined,
                  openRouteServiceApiKey = JUndefined, roundtrip = JUndefined\<rparr>"

definition offline :: network where
  "offline n req = NoResponse"

definition js_matrix :: "real list list \<Rightarrow> jsval" where
  "js_matrix rows = JArr (map (\<lambda>row. JArr (map (\<lambda>x. JNum (Fin x)) row)) rows)"



text \<open>A network where OpenRouteService reports a distance and a duration of zero.\<close>

definition ors_zero :: network where
  "ors_zero n req =
     Response 200 (Some (JObj [(''distances'', js_matrix [[0, 0], [0, 0]]),
                               (''durations'', js_matrix [[0, 0], [0, 0]])]))"

text \<open>A Google document where the provider resolved only the diagonal.\<close>

definition google_cell_ok :: jsval where
  "google_cell_ok = JObj [(''status'', JStr ''OK''),
                          (''distance'', JObj [(''value'', JNum (Fin 0))]),
                          (''duration'', JObj [(''value'', JNum (Fin 0))])]"

definition google_cell_failed :: jsval where
  "google_cell_failed = JObj [(''status'', JStr ''ZERO_RESULTS'')]"

definition google_partial :: network where
  "google_partial n req =
     Response 200 (Some (JObj [(''status'', JStr ''OK''),
       (''rows'', JArr [JObj [(''elements'', JArr [google_cell_ok, google_cell_failed])],
                        JObj [(''elements'', JArr [google_cell_failed, google_cell_ok])]])]))"

text \<open>An OSRM table document that holds durations and no distances.\<close>

definition osrm_durations_only :: network where
  "osrm_durations_only n req =
     Response 200 (Some (JObj [(''code'', JStr ''Ok''),
                               (''durations'', js_matrix [[0, 900], [900, 0]])]))"



text \<open>
  An OSRM trip document for two points, in input order, each snapped to the road network:
  the reported locations \<open>[lon, lat]\<close> are not the input coordinates.
\<close>

definition osrm_snapped :: network where
  "osrm_snapped n req =
     Response 200 (Some (JObj [(''code'', JStr ''Ok''),
       (''trips'', JArr [JObj [(''geometry'', JStr ''_p~iF~ps|U''), (''legs'', JArr []),
                               (''distance'', JNum (Fin 1000)), (''duration'', JNum (Fin 60))]]),
       (''waypoints'', JArr [
          JObj [(''waypoint_index'', JNum (Fin 0)),
                (''location'', JArr [JNum (Fin (1 / 4)), JNum (Fin (1 / 2))])],
          JObj [(''waypoint_index'', JNum (Fin 1)),
                (''location'', JArr [JNum (Fin (361 / 4)), JNum (Fin (1 / 2))])]])]))"

section \<open>Properties\<close>

lemma ebind_simps [simp]: "ebind (Inl e) f = Inl e" "ebind (Inr v) f = f v"
  by (simp_all add: ebind_def)

subsection \<open>The haversine formula\<close>

lemma finite_num_Fin: "finite_num a \<Longrightarrow> \<exists>d. a = Fin d"
  by (cases a) (simp_all add: finite_num_def)

text \<open>
  C9. \<open>_haversine\<close> does not clamp \<open>h\<close> to \<open>[0, 1]\<close>. When the rounded \<open>h\<close> exceeds
  \<open>1\<close>, as binary64 rounding makes it at some pairs of nearly antipodal points (at
  \<open>{lat: -12, lng: -180}\<close> and \<open>{lat: 12, lng: 0}\<close> it is \<open>1.0000000000000002\<close>),
  \<open>1 - h\<close> is negative, its square root is NaN, and so is the result: no distance, and
  not equal to itself under \<open>==\<close>.
\<close>

lemma haversine_NaN_when_h_exceeds_one:
  assumes "haversine_h rt a b = Fin h" and "js_sub rt (Fin 1) (Fin h) = Fin y" and "y < 0"
  shows "haversine rt a b = NaN"
  using assms by (simp add: haversine_def Let_def Math_atan2_def js_mul_def)

text \<open>
  At two points of identical finite coordinates both differences are \<open>0\<close>, and the result
  is \<open>0\<close> whatever the engine's rounding, provided \<open>Math.PI\<close> and the product of the two
  cosines are finite numbers.
\<close>

lemma haversine_identical_points:
  assumes a: "lat a = Fin x" "lng a = Fin y"
    and p: "finite_num (Math_PI rt)"
    and c: "finite_num (js_mul rt (Math_cos rt (toRad rt (Fin x))) (Math_cos rt (toRad rt (Fin x))))"
  shows "haversine rt a a = Fin 0"
proof -
  obtain q where q: "Math_PI rt = Fin q" using p finite_num_Fin by blast
  obtain cc where cc: "js_mul rt (Math_cos rt (toRad rt (Fin x))) (Math_cos rt (toRad rt (Fin x))) = Fin cc"
    using c finite_num_Fin by blast
  have z: "exact_int 0" by (simp add: exact_int_def)
  have r: "rnd rt 0 = Fin 0" using z by (simp add: rnd_def)
  have t0: "toRad rt (Fin 0) = Fin 0"
    using r by (simp add: toRad_def q js_mul_def)
  have d: "js_sub rt (Fin x) (Fin x) = Fin 0" "js_sub rt (Fin y) (Fin y) = Fin 0"
    using r by (simp_all add: js_sub_def)
  have s: "js_div rt (Fin 0) (Fin 2) = Fin 0" "Math_sin rt (Fin 0) = Fin 0"
    using r by simp_all
  have m: "js_mul rt (Fin 0) (Fin 0) = Fin 0" "js_mul rt (Fin cc) (Fin 0) = Fin 0"
    using r by (simp_all add: js_mul_def)
  have h: "haversine_h rt a a = Fin 0"
    using r
    by (simp add: haversine_h_def Let_def a d t0 s m cc del: Math_sin.simps Math_cos.simps js_div.simps)
  have one: "js_sub rt (Fin 1) (Fin 0) = Fin 1"
    by (simp add: js_sub_def rnd_def exact_int_def)
  have sq: "Math_sqrt rt (Fin 0) = Fin 0" "Math_sqrt rt (Fin 1) = Fin 1"
    by (simp_all add: rnd_def exact_int_def)
  have at: "Math_atan2 rt (Fin 0) (Fin 1) = Fin 0" by (simp add: Math_atan2_def)
  have m2: "js_mul rt (Fin 2) (Fin 0) = Fin 0" "js_mul rt (Fin 6371000) (Fin 0) = Fin 0"
    using r by (simp_all add: js_mul_def)
  show ?thesis
    by (simp add: haversine_def Let_def h one sq at m2 del: Math_sqrt.simps)
qed

text \<open>In the exact arithmetic of \<open>rt0\<close> the formula is the real-valued one.\<close>

lemma rnd_rt0 [simp]: "rnd rt0 x = Fin x"
  by (simp add: rnd_def rt0_def)

lemma js_mul_rt0: "js_mul rt0 (Fin x) (Fin y) = Fin (x * y)"
  by (simp add: js_mul_def)

lemma engine_rt0 [simp]:
  "round64 rt0 x = Fin x" "sin64 rt0 x = Fin (sin x)" "cos64 rt0 x = Fin (cos x)"
  "atan2_64 rt0 = exact_atan2"
  by (simp_all add: rt0_def)

lemma Math_PI_rt0: "Math_PI rt0 = Fin pi"
  by (simp add: Math_PI_def)

lemma Math_sin_rt0: "Math_sin rt0 (Fin x) = Fin (sin x)"
  by simp

lemma Math_cos_rt0: "Math_cos rt0 (Fin x) = Fin (cos x)"
  by simp

lemma Math_sqrt_rt0: "0 \<le> x \<Longrightarrow> Math_sqrt rt0 (Fin x) = Fin (sqrt x)"
  by simp

lemma Math_atan2_rt0: "Math_atan2 rt0 (Fin y) (Fin x) = Fin (atan2 y x)"
  by (simp add: Math_atan2_def atan2_def)

lemma h_real_bounds:
  fixes a b u t :: real
  assumes ab: "b - a = 2 * u"
  defines "h \<equiv> sin u * sin u + cos a * cos b * sin t * sin t"
  shows "0 \<le> h \<and> h \<le> 1"
proof -
  define c where "c = cos (b - a)"
  define d where "d = cos (a + b)"
  define s where "s = sin t * sin t"
  have "s = (sin t)\<^sup>2" by (simp add: s_def power2_eq_square)
  then have s: "0 \<le> s" "s \<le> 1" by (simp_all add: abs_square_le_1)
  have c: "- 1 \<le> c" "c \<le> 1" by (simp_all add: c_def)
  have d: "- 1 \<le> d" "d \<le> 1" by (simp_all add: d_def)
  have "c = 1 - 2 * (sin u)\<^sup>2"
    unfolding c_def ab by (rule cos_double_sin)
  then have e1: "sin u * sin u = (1 - c) / 2"
    by (simp add: power2_eq_square)
  have e2: "cos a * cos b = (c + d) / 2"
    by (simp add: c_def d_def cos_add cos_diff)
  have "h = sin u * sin u + (cos a * cos b) * s"
    by (simp add: h_def s_def mult.assoc)
  then have "h = (1 - c) / 2 + (c + d) / 2 * s"
    by (simp only: e1 e2)
  then have "2 * h = (1 - c) + (c + d) * s"
    by simp
  then have h1: "2 * h = (1 - s) * (1 - c) + s * (1 + d)"
    and h2: "2 * (1 - h) = (1 - s) * (1 + c) + s * (1 - d)"
    by (simp_all add: algebra_simps)
  have p: "0 \<le> (1 - s) * (1 - c)" "0 \<le> s * (1 + d)" "0 \<le> (1 - s) * (1 + c)" "0 \<le> s * (1 - d)"
    using s c d by (simp_all add: mult_nonneg_nonneg)
  have "0 \<le> (1 - s) * (1 - c) + s * (1 + d)"
    using p(1) p(2) by (rule add_nonneg_nonneg)
  then have "0 \<le> 2 * h" by (simp only: h1)
  moreover have "0 \<le> (1 - s) * (1 + c) + s * (1 - d)"
    using p(3) p(4) by (rule add_nonneg_nonneg)
  then have "0 \<le> 2 * (1 - h)" by (simp only: h2)
  ultimately show ?thesis by simp
qed

lemma haversine_h_rt0:
  "haversine_h rt0 \<lparr>lat = Fin x1, lng = Fin y1\<rparr> \<lparr>lat = Fin x2, lng = Fin y2\<rparr>
     = Fin (hreal x1 y1 x2 y2)"
  by (simp add: haversine_h_def hreal_def toRad_def js_sub_def js_mul_rt0 Let_def
        Math_PI_rt0 Math_sin_rt0 Math_cos_rt0 del: Math_sin.simps Math_cos.simps)

lemma hreal_bounds: "0 \<le> hreal x1 y1 x2 y2 \<and> hreal x1 y1 x2 y2 \<le> 1"
proof -
  have "x2 * pi / 180 - x1 * pi / 180 = 2 * ((x2 - x1) * pi / 180 / 2)"
    by (simp add: field_simps)
  then show ?thesis
    unfolding hreal_def by (rule h_real_bounds)
qed

lemma haversine_rt0:
  "haversine rt0 \<lparr>lat = Fin x1, lng = Fin y1\<rparr> \<lparr>lat = Fin x2, lng = Fin y2\<rparr>
     = Fin (dist_real x1 y1 x2 y2)"
  using hreal_bounds[of x1 y1 x2 y2]
  by (simp add: haversine_def haversine_h_rt0 dist_real_def js_sub_def js_mul_rt0 Let_def
        Math_atan2_rt0 Math_sqrt_rt0 del: Math_sqrt.simps)

subsection \<open>Point normalization\<close>

text \<open>
  C3, as the code has it. A point given as \<open>[v1, v2, \<dots>]\<close>, as \<open>{lat: v1, lng: v2}\<close> or
  as \<open>{latitude: v1, longitude: v2}\<close> is rejected with the invalid-point error exactly
  when the coercion of one coordinate to a number is NaN. Otherwise the point with the
  coerced coordinates is returned, whatever their range.
\<close>

theorem validatePoint_rejects_only_NaN:
  assumes "p = JArr (v1 # v2 # vs)
     \<or> (p = JObj kvs \<and> v1 \<noteq> JUndefined \<and> v2 \<noteq> JUndefined
        \<and> own_prop kvs ''lat'' = v1 \<and> own_prop kvs ''lng'' = v2)
     \<or> (p = JObj kvs \<and> v1 \<noteq> JUndefined \<and> v2 \<noteq> JUndefined
        \<and> (own_prop kvs ''lat'' = JUndefined \<or> own_prop kvs ''lng'' = JUndefined)
        \<and> own_prop kvs ''latitude'' = v1 \<and> own_prop kvs ''longitude'' = v2)"
  shows "validatePoint rt p name =
     (if Number_js rt v1 = NaN \<or> Number_js rt v2 = NaN then Inl (InvalidPoint name)
      else Inr \<lparr>lat = Number_js rt v1, lng = Number_js rt v2\<rparr>)"
  using assms by (auto simp: validatePoint_def)

theorem validatePoint_rejects_only_NaN_witness:
  "validatePoint rt0 (JArr [JNum (Fin 200), JNum (Fin (- 300))]) (PointsAt 0)
     = Inr \<lparr>lat = Fin 200, lng = Fin (- 300)\<rparr>
   \<and> validatePoint rt0 (JObj [(''latitude'', JNum NaN), (''longitude'', JNum (Fin 0))]) PointB
     = Inl (InvalidPoint PointB)"
  using validatePoint_rejects_only_NaN
          [of "JArr [JNum (Fin 200), JNum (Fin (- 300))]" "JNum (Fin 200)" "JNum (Fin (- 300))" "[]"
              "[]" rt0 "PointsAt 0"]
        validatePoint_rejects_only_NaN
          [of "JObj [(''latitude'', JNum NaN), (''longitude'', JNum (Fin 0))]" "JNum NaN"
              "JNum (Fin 0)" "[]" "[(''latitude'', JNum NaN), (''longitude'', JNum (Fin 0))]"
              rt0 PointB]
  by (simp add: own_prop_def)

text \<open>The scenario of the specification: \<open>{lat: 91, lng: 0}\<close> is accepted.\<close>

theorem validatePoint_lat_91_counterexample:
  "validatePoint rt0 (JObj [(''lat'', JNum (Fin 91)), (''lng'', JNum (Fin 0))]) PointA
     = Inr \<lparr>lat = Fin 91, lng = Fin 0\<rparr>"
  by (simp add: validatePoint_def own_prop_def)

subsection \<open>\<open>calculateDistance\<close>\<close>

text \<open>
  C1, as the code has it. For valid points, when neither the Google nor the OpenRouteService
  branch is selected, \<open>calculateDistance\<close> never rejects; and when the OSRM attempt errors
  (no response, a status outside 200..299, a body that is not JSON, or a document the
  branch rejects), or when no provider is selected at all, it resolves with the rounded
  haversine distance and no \<open>duration\<close> field.
\<close>

theorem calculateDistance_falls_back_to_haversine:
  assumes A: "validatePoint rt a PointA = Inr A"
    and B: "validatePoint rt b PointB = Inr B"
    and keys: "\<not> use_google opts" "\<not> use_ors opts"
  shows "(\<exists>res. calculateDistance rt net a b opts = Inr res)
     \<and> ((use_osrm opts \<longrightarrow>
            net 0 (OsrmRoute (profile_of rt opts) [A, B]) = NoResponse
          \<or> (\<exists>st body. net 0 (OsrmRoute (profile_of rt opts) [A, B]) = Response st body
                \<and> (st < 200 \<or> 299 < st \<or> body = None))
          \<or> (\<exists>st data err. net 0 (OsrmRoute (profile_of rt opts) [A, B]) = Response st (Some data)
                \<and> osrm_pair data = Inl err))
        \<longrightarrow> calculateDistance rt net a b opts
              = Inr \<lparr>distance = JNum (Math_round (haversine rt A B)), duration = None,
                     unit = ''meters''\<rparr>)"
proof (cases "use_osrm opts")
  case False
  then show ?thesis using A B keys by (simp add: calculateDistance_def haversine_result_def)
next
  case True
  let ?attempt = "ebind (fetchJson (net 0 (OsrmRoute (profile_of rt opts) [A, B]))) osrm_pair"
  have calc: "calculateDistance rt net a b opts
      = (case ?attempt of Inr res \<Rightarrow> Inr res | Inl err \<Rightarrow> Inr (haversine_result rt A B))"
    using A B keys True by (simp add: calculateDistance_def)
  have "\<exists>res. calculateDistance rt net a b opts = Inr res"
    unfolding calc by (cases ?attempt) simp_all
  moreover have "calculateDistance rt net a b opts = Inr (haversine_result rt A B)"
    if "net 0 (OsrmRoute (profile_of rt opts) [A, B]) = NoResponse
          \<or> (\<exists>st body. net 0 (OsrmRoute (profile_of rt opts) [A, B]) = Response st body
                \<and> (st < 200 \<or> 299 < st \<or> body = None))
          \<or> (\<exists>st data err. net 0 (OsrmRoute (profile_of rt opts) [A, B]) = Response st (Some data)
                \<and> osrm_pair data = Inl err)"
  proof -
    have "\<exists>err. ?attempt = Inl err"
      using that by (auto simp: fetchJson_def split: option.splits)
    then show ?thesis unfolding calc by auto
  qed
  ultimately show ?thesis using True by (simp add: haversine_result_def)
qed

text \<open>Documents the OSRM branch rejects: an error code, or no first route.\<close>

lemma osrm_pair_error_code:
  assumes "get data ''code'' = Inr code" "truthy code" "code \<noteq> JStr ''Ok''"
  shows "osrm_pair data = Inl (OsrmError code)"
  using assms by (simp add: osrm_pair_def)

lemma osrm_pair_no_routes:
  assumes "get data ''code'' = Inr (JStr ''Ok'')" "get data ''routes'' = Inr routes"
    and "routes = JUndefined \<or> routes = JNull \<or> routes = JArr []"
  shows "osrm_pair data = Inl OsrmNoRoute"
  using assms by (auto simp: osrm_pair_def js_and_def js_or_def)

lemma valid_js_point: "validatePoint rt (js_point x y) nm = Inr \<lparr>lat = Fin x, lng = Fin y\<rparr>"
  by (simp add: validatePoint_def js_point_def own_prop_def)

lemma use_no_options: "\<not> use_google no_options" "\<not> use_ors no_options" "use_osrm no_options"
  by (simp_all add: use_google_def use_ors_def use_osrm_def no_options_def provider_of_def js_or_def)

theorem calculateDistance_falls_back_to_haversine_witness:
  "(\<exists>res. calculateDistance rt0 offline (js_point 0 0) (js_point 0 90) no_options = Inr res)
   \<and> calculateDistance rt0 offline (js_point 0 0) (js_point 0 90) no_options
     = Inr \<lparr>distance = JNum (Math_round (haversine rt0 \<lparr>lat = Fin 0, lng = Fin 0\<rparr> \<lparr>lat = Fin 0, lng = Fin 90\<rparr>)),
            duration = None, unit = ''meters''\<rparr>"
  using calculateDistance_falls_back_to_haversine
          [of rt0 "js_point 0 0" "\<lparr>lat = Fin 0, lng = Fin 0\<rparr>"
              "js_point 0 90" "\<lparr>lat = Fin 0, lng = Fin 90\<rparr>" no_options offline]
  by (simp add: valid_js_point use_no_options offline_def)

text \<open>
  With a Google key, a network failure of the Google request rejects the call: there is
  no haversine result.
\<close>

theorem calculateDistance_google_failure_counterexample:
  "calculateDistance rt0 offline (js_point 0 0) (js_point 0 90) (no_options\<lparr>googleApiKey := JStr ''key''\<rparr>)
     = Inl NetworkFailure"
  by (simp add: calculateDistance_def valid_js_point use_google_def provider_of_def js_or_def
        no_options_def offline_def fetchJson_def)



lemma js_matrix_cell01:
  "cell01 (js_matrix ((x # y # ys) # rows)) = Inr (JNum (Fin y))"
  by (simp add: cell01_def js_matrix_def js_and_def)



lemma idx_truthy: "truthy v \<Longrightarrow> \<exists>w. idx v i = Inr w"
  by (cases v) auto

lemma cell01_returns: "\<exists>v. cell01 m = Inr v"
proof (cases "truthy m")
  case False
  then show ?thesis by (simp add: cell01_def js_and_def)
next
  case True
  then obtain row where row: "idx m 0 = Inr row" using idx_truthy by blast
  show ?thesis
  proof (cases "truthy row")
    case False
    then show ?thesis using True row by (simp add: cell01_def js_and_def)
  next
    case t: True
    then obtain c where "idx row 1 = Inr c" using idx_truthy by blast
    then show ?thesis using True row t by (simp add: cell01_def js_and_def)
  qed
qed

text \<open>
  C10. When the OpenRouteService branch resolves the pair with a document \<open>resp\<close>: a
  reported duration \<open>resp.durations[0][1]\<close> of exactly \<open>0\<close> gives a result whose
  \<open>duration\<close> is \<open>undefined\<close>, so that \<open>getEstimatedTime\<close> returns \<open>null\<close>; a
  reported distance \<open>resp.distances[0][1]\<close> of exactly \<open>0\<close> is replaced by the
  (unrounded) haversine value.
\<close>

theorem ors_zero_is_treated_as_absent:
  assumes A: "validatePoint rt a PointA = Inr A"
    and B: "validatePoint rt b PointB = Inr B"
    and ors: "\<not> use_google opts" "use_ors opts"
    and resp: "ors_fetch net (profile_of rt opts) A B (openRouteServiceApiKey opts) = Inr resp"
    and ds: "get resp ''distances'' = Inr ds"
    and ts: "get resp ''durations'' = Inr ts"
  shows "(cell01 ts = Inr (JNum (Fin 0)) \<longrightarrow>
            (\<exists>d. calculateDistance rt net a b opts
                   = Inr \<lparr>distance = d, duration = Some JUndefined, unit = ''meters''\<rparr>)
            \<and> getEstimatedTime rt net a b opts = Inr JNull)
       \<and> (cell01 ds = Inr (JNum (Fin 0)) \<longrightarrow>
            (\<exists>t. calculateDistance rt net a b opts
                   = Inr \<lparr>distance = JNum (haversine rt A B), duration = Some t, unit = ''meters''\<rparr>))"
proof -
  obtain d where d: "cell01 ds = Inr d" using cell01_returns by blast
  obtain t where t: "cell01 ts = Inr t" using cell01_returns by blast
  have res: "calculateDistance rt net a b opts
      = Inr \<lparr>distance = js_or d (JNum (haversine rt A B)), duration = Some (js_or t JUndefined),
             unit = ''meters''\<rparr>"
    using A B ors resp ds ts d t by (simp add: calculateDistance_def ors_pair_def)
  show ?thesis
    using d t by (auto simp: res getEstimatedTime_def js_or_def)
qed

theorem ors_zero_is_treated_as_absent_witness:
  "(\<exists>d. calculateDistance rt0 ors_zero (js_point 0 0) (js_point 0 90)
            (no_options\<lparr>openRouteServiceApiKey := JStr ''o''\<rparr>)
          = Inr \<lparr>distance = d, duration = Some JUndefined, unit = ''meters''\<rparr>)
   \<and> getEstimatedTime rt0 ors_zero (js_point 0 0) (js_point 0 90)
        (no_options\<lparr>openRouteServiceApiKey := JStr ''o''\<rparr>) = Inr JNull
   \<and> (\<exists>t. calculateDistance rt0 ors_zero (js_point 0 0) (js_point 0 90)
            (no_options\<lparr>openRouteServiceApiKey := JStr ''o''\<rparr>)
          = Inr \<lparr>distance = JNum (haversine rt0 \<lparr>lat = Fin 0, lng = Fin 0\<rparr> \<lparr>lat = Fin 0, lng = Fin 90\<rparr>),
                 duration = Some t, unit = ''meters''\<rparr>)"
proof -
  let ?A = "\<lparr>lat = Fin 0, lng = Fin 0\<rparr>" and ?B = "\<lparr>lat = Fin 0, lng = Fin 90\<rparr>"
  let ?o = "no_options\<lparr>openRouteServiceApiKey := JStr ''o''\<rparr>"
  let ?resp = "JObj [(''distances'', js_matrix [[0, 0], [0, 0]]),
                     (''durations'', js_matrix [[0, 0], [0, 0]])]"
  have o: "\<not> use_google ?o" "use_ors ?o"
    by (simp_all add: use_google_def use_ors_def provider_of_def js_or_def no_options_def)
  have f: "ors_fetch ors_zero (profile_of rt0 ?o) ?A ?B (openRouteServiceApiKey ?o) = Inr ?resp"
    by (simp add: ors_fetch_def ors_zero_def fetchJson_def)
  have g: "get ?resp ''distances'' = Inr (js_matrix [[0, 0], [0, 0]])"
          "get ?resp ''durations'' = Inr (js_matrix [[0, 0], [0, 0]])"
    by (simp_all add: own_prop_def)
  show ?thesis
    using ors_zero_is_treated_as_absent
            [OF valid_js_point valid_js_point o f g]
    by (simp add: js_matrix_cell01)
qed

subsection \<open>\<open>getDistanceMatrix\<close>\<close>

lemma haversine_matrix_cell:
  assumes "i < length pts" "j < length pts"
  shows "matrix_cell (distances (haversine_matrix rt pts)) i j
     = Inr (if i = j then JNum (Fin 0) else JNum (Math_round (haversine rt (pts ! i) (pts ! j))))"
  using assms by (simp add: haversine_matrix_def matrix_cell_def Let_def)

lemma getDistanceMatrix_no_provider:
  assumes "check_points rt points = Inr pts"
    and "\<not> use_google opts" "\<not> use_ors opts" "\<not> use_osrm opts"
  shows "getDistanceMatrix rt net points opts = Inr (haversine_matrix rt pts)"
  using assms by (simp add: getDistanceMatrix_def)

text \<open>
  C4, as the code has it. For a valid input of at least two points, when no provider is
  selected the matrix is computed locally and is fully populated: every cell
  \<open>distances[i][j]\<close> is a number, the rounded haversine distance off the diagonal. (A
  matrix that a provider returned is passed on as received, \<open>null\<close> cells included.)
\<close>

theorem haversine_matrix_fully_populated:
  assumes pts: "check_points rt points = Inr pts"
    and none: "\<not> use_google opts" "\<not> use_ors opts" "\<not> use_osrm opts"
  shows "\<exists>res. getDistanceMatrix rt net points opts = Inr res
     \<and> (\<forall>i<length pts. \<forall>j<length pts.
          (\<exists>x. matrix_cell (distances res) i j = Inr (JNum x))
          \<and> (i \<noteq> j \<longrightarrow> matrix_cell (distances res) i j
                = Inr (JNum (Math_round (haversine rt (pts ! i) (pts ! j))))))"
  using getDistanceMatrix_no_provider[OF pts none] by (simp add: haversine_matrix_cell)

text \<open>
  C6, as the code has it. For a valid input of at least two points, when no provider is
  selected, \<open>distances[i][i]\<close> is \<open>0\<close> for every index \<open>i\<close>.
\<close>

theorem haversine_matrix_zero_diagonal:
  assumes pts: "check_points rt points = Inr pts"
    and none: "\<not> use_google opts" "\<not> use_ors opts" "\<not> use_osrm opts"
  shows "\<exists>res. getDistanceMatrix rt net points opts = Inr res
     \<and> (\<forall>i<length pts. matrix_cell (distances res) i i = Inr (JNum (Fin 0)))"
  using getDistanceMatrix_no_provider[OF pts none] by (simp add: haversine_matrix_cell)

lemma check_two_js_points:
  "check_points rt (JArr [js_point x1 y1, js_point x2 y2])
     = Inr [\<lparr>lat = Fin x1, lng = Fin y1\<rparr>, \<lparr>lat = Fin x2, lng = Fin y2\<rparr>]"
  by (simp add: check_points_def valid_js_point)

lemma use_none: 
  "\<not> use_google (no_options\<lparr>provider := JStr ''none''\<rparr>)"
  "\<not> use_ors (no_options\<lparr>provider := JStr ''none''\<rparr>)"
  "\<not> use_osrm (no_options\<lparr>provider := JStr ''none''\<rparr>)"
  by (simp_all add: use_google_def use_ors_def use_osrm_def no_options_def provider_of_def js_or_def)

theorem haversine_matrix_fully_populated_witness:
  "\<exists>res. getDistanceMatrix rt0 offline (JArr [js_point 0 0, js_point 0 90])
            (no_options\<lparr>provider := JStr ''none''\<rparr>) = Inr res
     \<and> (\<exists>x. matrix_cell (distances res) 0 0 = Inr (JNum x))
     \<and> (\<exists>x. matrix_cell (distances res) 1 1 = Inr (JNum x))
     \<and> matrix_cell (distances res) 0 1
          = Inr (JNum (Math_round (haversine rt0 \<lparr>lat = Fin 0, lng = Fin 0\<rparr> \<lparr>lat = Fin 0, lng = Fin 90\<rparr>)))
     \<and> matrix_cell (distances res) 1 0
          = Inr (JNum (Math_round (haversine rt0 \<lparr>lat = Fin 0, lng = Fin 90\<rparr> \<lparr>lat = Fin 0, lng = Fin 0\<rparr>)))"
proof -
  obtain res where res: "getDistanceMatrix rt0 offline (JArr [js_point 0 0, js_point 0 90])
            (no_options\<lparr>provider := JStr ''none''\<rparr>) = Inr res"
    and cells: "\<forall>i<2. \<forall>j<2.
          (\<exists>x. matrix_cell (distances res) i j = Inr (JNum x))
          \<and> (i \<noteq> j \<longrightarrow> matrix_cell (distances res) i j
                = Inr (JNum (Math_round (haversine rt0
                     ([\<lparr>lat = Fin 0, lng = Fin 0\<rparr>, \<lparr>lat = Fin 0, lng = Fin 90\<rparr>] ! i)
                     ([\<lparr>lat = Fin 0, lng = Fin 0\<rparr>, \<lparr>lat = Fin 0, lng = Fin 90\<rparr>] ! j)))))"
    using haversine_matrix_fully_populated[OF check_two_js_points[of rt0 0 0 0 90] use_none, where net = offline]
    by auto
  have "(0::nat) < 2" "(1::nat) < 2" "(0::nat) \<noteq> 1" by simp_all
  with cells res show ?thesis by (metis nth_Cons_0 One_nat_def nth_Cons_Suc)
qed

theorem haversine_matrix_zero_diagonal_witness:
  "\<exists>res. getDistanceMatrix rt0 offline (JArr [js_point 0 0, js_point 0 90])
            (no_options\<lparr>provider := JStr ''none''\<rparr>) = Inr res
     \<and> matrix_cell (distances res) 0 0 = Inr (JNum (Fin 0))
     \<and> matrix_cell (distances res) 1 1 = Inr (JNum (Fin 0))"
  using haversine_matrix_zero_diagonal[OF check_two_js_points[of rt0 0 0 0 90] use_none, where net = offline]
  by auto

lemma upt_2: "[0..<2] = [0, 1]"
  by (simp add: upt_rec)

text \<open>
  Google resolved the diagonal only: the cells it failed to resolve are \<open>null\<close> in the
  returned matrix.
\<close>

theorem google_unresolved_cell_is_null_counterexample:
  "getDistanceMatrix rt0 google_partial (JArr [js_point 0 0, js_point 0 90])
      (no_options\<lparr>googleApiKey := JStr ''g''\<rparr>)
     = Inr \<lparr>distances = JArr [JArr [JNum (Fin 0), JNull], JArr [JNull, JNum (Fin 0)]],
            durations = JArr [JArr [JNum (Fin 0), JNull], JArr [JNull, JNum (Fin 0)]],
            matrix_unit = ''meters''\<rparr>"
  by (simp add: getDistanceMatrix_def check_two_js_points use_google_def provider_of_def js_or_def
        no_options_def google_partial_def fetchJson_def google_matrix_def own_prop_def
        loop_count_def for_index_def max_array_length_def upt_2 google_row_def google_cell_def
        google_cell_ok_def google_cell_failed_def)

text \<open>
  OSRM answered with durations only: \<open>distances\<close> is \<open>null\<close>, and there is no
  \<open>distances[0][0]\<close> to be \<open>0\<close>.
\<close>

theorem osrm_matrix_without_distances_counterexample:
  "getDistanceMatrix rt0 osrm_durations_only (JArr [js_point 0 0, js_point 0 90]) no_options
     = Inr \<lparr>distances = JNull, durations = js_matrix [[0, 900], [900, 0]], matrix_unit = ''meters''\<rparr>
   \<and> matrix_cell JNull 0 0 = Inl TypeError"
  by (simp add: getDistanceMatrix_def check_two_js_points use_no_options osrm_durations_only_def
        fetchJson_def osrm_matrix_def own_prop_def js_or_def js_matrix_def matrix_cell_def)

subsection \<open>The nearest-neighbour order\<close>

text \<open>
  The inner loop, after the indices below \<open>m\<close>, when the distance from the current
  point to every unvisited point is a finite number.
\<close>

lemma nn_fold:
  assumes fin: "\<And>j. j < length pts \<Longrightarrow> \<not> visited ! j \<Longrightarrow> \<exists>d. haversine rt c (pts ! j) = Fin d"
    and m: "m \<le> length pts"
  shows "case fold (nn_step rt pts visited c) [0..<m] (None, PInf) of
      (None, bestD) \<Rightarrow> bestD = PInf \<and> (\<forall>j<m. visited ! j)
    | (Some b, bestD) \<Rightarrow> b < m \<and> \<not> visited ! b \<and> bestD = haversine rt c (pts ! b)
        \<and> (\<forall>j<m. \<not> visited ! j \<longrightarrow> \<not> js_lt (haversine rt c (pts ! j)) (haversine rt c (pts ! b)))"
  using m
proof (induction m)
  case 0
  then show ?case by simp
next
  case (Suc m)
  let ?acc = "fold (nn_step rt pts visited c) [0..<m] (None, PInf)"
  have IH: "case ?acc of
      (None, bestD) \<Rightarrow> bestD = PInf \<and> (\<forall>j<m. visited ! j)
    | (Some b, bestD) \<Rightarrow> b < m \<and> \<not> visited ! b \<and> bestD = haversine rt c (pts ! b)
        \<and> (\<forall>j<m. \<not> visited ! j \<longrightarrow> \<not> js_lt (haversine rt c (pts ! j)) (haversine rt c (pts ! b)))"
    using Suc by simp
  have step: "fold (nn_step rt pts visited c) [0..<Suc m] (None, PInf) = nn_step rt pts visited c m ?acc"
    by simp
  show ?case
  proof (cases "visited ! m")
    case True
    then have "nn_step rt pts visited c m ?acc = ?acc" by (simp add: nn_step_def)
    with IH True show ?thesis unfolding step
      by (auto split: prod.splits option.splits simp: less_Suc_eq)
  next
    case False
    obtain dm where dm: "haversine rt c (pts ! m) = Fin dm" using fin[of m] False Suc.prems by auto
    obtain best bestD where acc: "?acc = (best, bestD)" by (cases ?acc)
    show ?thesis
    proof (cases best)
      case None
      then have "nn_step rt pts visited c m ?acc = (Some m, Fin dm)"
        using IH acc False dm by (simp add: nn_step_def)
      then show ?thesis unfolding step using IH acc None False dm
        by (auto simp: less_Suc_eq)
    next
      case (Some b)
      then have b: "b < m" "\<not> visited ! b" "bestD = haversine rt c (pts ! b)"
        and mn: "\<forall>j<m. \<not> visited ! j \<longrightarrow> \<not> js_lt (haversine rt c (pts ! j)) (haversine rt c (pts ! b))"
        using IH acc by auto
      obtain db where db: "haversine rt c (pts ! b) = Fin db" using fin[of b] b Suc.prems by auto
      have fj: "\<And>j. j < m \<Longrightarrow> \<not> visited ! j \<Longrightarrow> \<exists>d. haversine rt c (pts ! j) = Fin d"
        using fin Suc.prems by auto
      show ?thesis
      proof (cases "dm < db")
        case True
        then have s: "nn_step rt pts visited c m ?acc = (Some m, Fin dm)"
          using acc Some False dm db b by (simp add: nn_step_def)
        have "\<not> js_lt (haversine rt c (pts ! j)) (Fin dm)" if jm: "j < m" and nv: "\<not> visited ! j" for j
        proof -
          obtain dj where dj: "haversine rt c (pts ! j) = Fin dj" using fj[OF jm nv] by blast
          then have "\<not> dj < db" using mn jm nv db by auto
          with True show ?thesis using dj by simp
        qed
        then show ?thesis unfolding step s using False dm
          by (auto simp: less_Suc_eq)
      next
        case nlt: False
        then have s: "nn_step rt pts visited c m ?acc = (Some b, bestD)"
          using acc Some False dm db b by (simp add: nn_step_def)
        show ?thesis unfolding step s using b mn nlt dm db
          by (auto simp: less_Suc_eq)
      qed
    qed
  qed
qed

lemma nn_best_None:
  assumes "\<And>j. j < length pts \<Longrightarrow> \<not> visited ! j \<Longrightarrow> \<exists>d. haversine rt c (pts ! j) = Fin d"
    and "nn_best rt pts visited c = None"
  shows "\<forall>j<length pts. visited ! j"
  using nn_fold[OF assms(1), of visited "length pts"] assms(2)
  by (auto simp: nn_best_def split: prod.splits option.splits)

lemma nn_best_Some:
  assumes "\<And>j. j < length pts \<Longrightarrow> \<not> visited ! j \<Longrightarrow> \<exists>d. haversine rt c (pts ! j) = Fin d"
    and "nn_best rt pts visited c = Some b"
  shows "b < length pts \<and> \<not> visited ! b
     \<and> (\<forall>j<length pts. \<not> visited ! j \<longrightarrow> \<not> js_lt (haversine rt c (pts ! j)) (haversine rt c (pts ! b)))"
  using nn_fold[OF assms(1), of visited "length pts"] assms(2)
  by (auto simp: nn_best_def split: prod.splits option.splits)

lemma unvisited_exists:
  assumes "distinct order" "set order \<subseteq> {0..<n}" "length order < n"
  shows "\<exists>j<n. j \<notin> set order"
proof (rule ccontr)
  assume "\<not> (\<exists>j<n. j \<notin> set order)"
  then have "{0..<n} \<subseteq> set order" by auto
  then have "card {0..<n} \<le> card (set order)" by (intro card_mono) simp_all
  then show False using assms by (simp add: distinct_card)
qed

lemma naiveOrder_greedy:
  assumes fin: "\<forall>i<length pts. \<forall>j<length pts. i \<noteq> j \<longrightarrow> finite_num (haversine rt (pts ! i) (pts ! j))"
    and pos: "0 < length pts"
  shows "length (naiveOrder rt pts) = length pts \<and> distinct (naiveOrder rt pts)
     \<and> set (naiveOrder rt pts) = {0..<length pts} \<and> naiveOrder rt pts ! 0 = 0
     \<and> (\<forall>i. 0 < i \<and> i < length pts \<longrightarrow>
          (\<forall>j<length pts. j \<notin> set (take i (naiveOrder rt pts)) \<longrightarrow>
             \<not> js_lt (haversine rt (pts ! (naiveOrder rt pts ! (i - 1))) (pts ! j))
                      (haversine rt (pts ! (naiveOrder rt pts ! (i - 1)))
                         (pts ! (naiveOrder rt pts ! i)))))"
proof -
  define n where "n = length pts"
  define G where "G order \<longleftrightarrow>
     (\<forall>i. 0 < i \<and> i < length order \<longrightarrow>
        (\<forall>j<n. j \<notin> set (take i order) \<longrightarrow>
           \<not> js_lt (haversine rt (pts ! (order ! (i - 1))) (pts ! j))
                    (haversine rt (pts ! (order ! (i - 1))) (pts ! (order ! i)))))" for order
  have hf: "\<exists>d. haversine rt (pts ! i) (pts ! j) = Fin d" if "i < n" "j < n" "i \<noteq> j" for i j
    using fin that finite_num_Fin by (auto simp: n_def)
  have loop: "length visited = n \<Longrightarrow> order \<noteq> [] \<Longrightarrow> distinct order \<Longrightarrow> set order \<subseteq> {0..<n}
      \<Longrightarrow> (\<forall>j<n. visited ! j \<longleftrightarrow> j \<in> set order) \<Longrightarrow> k + length order = n \<Longrightarrow> G order
      \<Longrightarrow> length (nn_loop rt k pts visited order) = n \<and> distinct (nn_loop rt k pts visited order)
          \<and> set (nn_loop rt k pts visited order) \<subseteq> {0..<n}
          \<and> nn_loop rt k pts visited order ! 0 = order ! 0 \<and> G (nn_loop rt k pts visited order)"
    for k visited order
  proof (induction k arbitrary: visited order)
    case 0
    then show ?case by simp
  next
    case (Suc k)
    let ?c = "pts ! last order"
    have lastn: "last order < n"
      using Suc.prems(2,4) last_in_set by fastforce
    have lastv: "visited ! last order"
      using Suc.prems(2,5) lastn by simp
    have fc: "\<exists>d. haversine rt ?c (pts ! j) = Fin d" if "j < length pts" "\<not> visited ! j" for j
    proof -
      have "last order \<noteq> j" using that(2) lastv by auto
      then show ?thesis using hf[OF lastn] that(1) by (simp add: n_def)
    qed
    have "\<exists>j<n. j \<notin> set order"
      using unvisited_exists[of order n] Suc.prems by simp
    then have "\<not> (\<forall>j<length pts. visited ! j)"
      using Suc.prems(5) by (auto simp: n_def)
    then have "nn_best rt pts visited ?c \<noteq> None"
      using nn_best_None[of pts visited rt ?c] fc by blast
    then obtain b where b: "nn_best rt pts visited ?c = Some b" by auto
    have bn: "b < n" and bv: "\<not> visited ! b"
      and mn: "\<forall>j<n. \<not> visited ! j \<longrightarrow> \<not> js_lt (haversine rt ?c (pts ! j)) (haversine rt ?c (pts ! b))"
      using nn_best_Some[of pts visited rt ?c b] fc b by (auto simp: n_def)
    have bnot: "b \<notin> set order" using bn bv Suc.prems(5) by auto
    let ?v = "visited[b := True]" and ?o = "order @ [b]"
    have 1: "length ?v = n" using Suc.prems(1) by simp
    have 2: "?o \<noteq> []" by simp
    have 3: "distinct ?o" using Suc.prems(3) bnot by simp
    have 4: "set ?o \<subseteq> {0..<n}" using Suc.prems(4) bn by simp
    have 5: "\<forall>j<n. ?v ! j \<longleftrightarrow> j \<in> set ?o"
    proof (intro allI impI)
      fix j assume j: "j < n"
      then have "?v ! j = (if j = b then True else visited ! j)"
        using Suc.prems(1) by (simp add: nth_list_update)
      then show "?v ! j \<longleftrightarrow> j \<in> set ?o" using Suc.prems(5) j by auto
    qed
    have 6: "k + length ?o = n" using Suc.prems(6) by simp
    have 7: "G ?o"
      unfolding G_def
    proof (intro allI impI)
      fix i j
      assume i: "0 < i \<and> i < length ?o" and j: "j < n" and nj: "j \<notin> set (take i ?o)"
      show "\<not> js_lt (haversine rt (pts ! (?o ! (i - 1))) (pts ! j))
                     (haversine rt (pts ! (?o ! (i - 1))) (pts ! (?o ! i)))"
      proof (cases "i < length order")
        case True
        moreover from True have "i - 1 < length order" by simp
        ultimately have "take i ?o = take i order" "?o ! (i - 1) = order ! (i - 1)" "?o ! i = order ! i"
          by (simp_all add: nth_append)
        then show ?thesis using Suc.prems(7) i j nj True unfolding G_def by auto
      next
        case False
        then have il: "i = length order" using i by simp
        then have t: "take i ?o = order" and "?o ! (i - 1) = last order" "?o ! i = b"
          using Suc.prems(2) by (simp_all add: nth_append last_conv_nth)
        moreover have "j \<notin> set order" using nj unfolding t .
        then have "\<not> visited ! j" using j Suc.prems(5) by simp
        ultimately show ?thesis using mn j by simp
      qed
    qed
    have "?o ! 0 = order ! 0" using Suc.prems(2) by (cases order) simp_all
    with Suc.IH[OF 1 2 3 4 5 6 7] show ?case using b by simp
  qed
  let ?v0 = "(replicate n False)[0 := True]"
  have pos': "0 < n" using pos by (simp add: n_def)
  have i1: "length ?v0 = n" by simp
  have i5: "\<forall>j<n. ?v0 ! j \<longleftrightarrow> j \<in> set [0]"
    using pos' by (auto simp: nth_list_update)
  have i6: "(n - 1) + length [0::nat] = n" using pos' by simp
  have i7: "G [0]" by (simp add: G_def)
  have i4: "set [0::nat] \<subseteq> {0..<n}" using pos' by simp
  have res: "length (naiveOrder rt pts) = n \<and> distinct (naiveOrder rt pts)
          \<and> set (naiveOrder rt pts) \<subseteq> {0..<n}
          \<and> naiveOrder rt pts ! 0 = [0] ! 0 \<and> G (naiveOrder rt pts)"
    unfolding naiveOrder_def n_def[symmetric]
    by (rule loop[OF i1 _ _ i4 i5 i6 i7]) simp_all
  then have "card (set (naiveOrder rt pts)) = card {0..<n}" by (simp add: distinct_card)
  with res have "set (naiveOrder rt pts) = {0..<n}"
    by (metis card_subset_eq finite_atLeastLessThan)
  with res show ?thesis unfolding G_def n_def by simp
qed

text \<open>
  Why the distances are taken finite: when a distance is NaN (at an infinite coordinate,
  which \<open>_validatePoint\<close> lets through, or where rounding takes \<open>h\<close> above \<open>1\<close>), no
  comparison \<open>d < bestD\<close> holds and the loop breaks with points left unvisited.
\<close>

lemma naiveOrder_breaks_at_NaN:
  assumes "haversine rt A B = NaN"
  shows "naiveOrder rt [A, B] = [0]"
  using assms by (simp add: naiveOrder_def numeral_2_eq_2 nn_best_def nn_step_def upt_2)

lemma upt_3: "[0..<3] = [0, 1, 2]"
  by (simp add: upt_rec)

lemma naiveOrder_three:
  assumes ab: "haversine rt A B = Fin ab" and ac: "haversine rt A C = Fin ac"
    and bc: "finite_num (haversine rt B C)"
    and lt: "ab < ac"
  shows "naiveOrder rt [A, B, C] = [0, 1, 2]"
proof -
  obtain d where d: "haversine rt B C = Fin d" using bc finite_num_Fin by blast
  have 1: "nn_best rt [A, B, C] [True, False, False] A = Some 1"
    using ab ac lt by (simp add: nn_best_def upt_3 nn_step_def)
  have 2: "nn_best rt [A, B, C] [True, True, False] B = Some 2"
    using d by (simp add: nn_best_def upt_3 nn_step_def)
  have "nn_loop rt (Suc (Suc 0)) [A, B, C] [True, False, False] [0] = [0, 1, 2]"
    using 1 2 by simp
  then show ?thesis by (simp add: naiveOrder_def numeral_3_eq_3)
qed

lemma validatePoints_length:
  "validatePoints rt i ps = Inr pts \<Longrightarrow> length pts = length ps"
  by (induction ps arbitrary: i pts) (auto simp: ebind_def split: sum.splits)

lemma check_points_length:
  "check_points rt points = Inr pts \<Longrightarrow> 2 \<le> length pts"
  by (auto simp: check_points_def validatePoints_length split: jsval.splits if_splits)

lemma optimizeRoute_naive:
  assumes "check_points rt points = Inr pts" "\<not> use_google opts" "\<not> use_osrm opts"
  shows "optimizeRoute rt net points opts = Inr (naive_route rt pts)"
  using assms by (simp add: optimizeRoute_def)

text \<open>
  C8, as the code has it. For a valid input, when neither the Google nor the OSRM branch
  is selected and the haversine distance between any two distinct input points is a
  finite number, \<open>optimizeRoute\<close> runs the nearest-neighbour heuristic, whose result
  depends on the points (and the arithmetic) alone. The order starts at index \<open>0\<close>; it
  visits every index; at each step \<open>i\<close> it appends an index not visited before, and no
  unvisited point is nearer (by \<open>_haversine\<close>) to the point appended last. For three points
  \<open>[A, B, C]\<close> with \<open>dist(A, B) < dist(A, C)\<close> the waypoints are \<open>[A, B, C]\<close>.
\<close>

theorem nearest_neighbour_route:
  assumes pts: "check_points rt points = Inr pts"
    and sel: "\<not> use_google opts" "\<not> use_osrm opts"
    and fin: "\<forall>i<length pts. \<forall>j<length pts. i \<noteq> j \<longrightarrow> finite_num (haversine rt (pts ! i) (pts ! j))"
  shows "optimizeRoute rt net points opts = Inr (naive_route rt pts)
     \<and> waypoints (naive_route rt pts) = map (\<lambda>i. Some (pts ! i)) (naiveOrder rt pts)
     \<and> naiveOrder rt pts ! 0 = 0
     \<and> length (naiveOrder rt pts) = length pts
     \<and> set (naiveOrder rt pts) = {0..<length pts}
     \<and> (\<forall>i. 0 < i \<and> i < length pts \<longrightarrow>
          naiveOrder rt pts ! i \<notin> set (take i (naiveOrder rt pts))
          \<and> (\<forall>j<length pts. j \<notin> set (take i (naiveOrder rt pts)) \<longrightarrow>
                \<not> js_lt (haversine rt (pts ! (naiveOrder rt pts ! (i - 1))) (pts ! j))
                         (haversine rt (pts ! (naiveOrder rt pts ! (i - 1)))
                            (pts ! (naiveOrder rt pts ! i)))))
     \<and> (\<forall>A B C. pts = [A, B, C] \<and> js_lt (haversine rt A B) (haversine rt A C)
          \<longrightarrow> waypoints (naive_route rt pts) = [Some A, Some B, Some C])"
proof -
  have pos: "0 < length pts" using check_points_length[OF pts] by linarith
  note g = naiveOrder_greedy[OF fin pos]
  have fresh: "naiveOrder rt pts ! i \<notin> set (take i (naiveOrder rt pts))" if "i < length pts" for i
  proof -
    have "distinct (take (Suc i) (naiveOrder rt pts))" using g by simp
    moreover have "take (Suc i) (naiveOrder rt pts)
        = take i (naiveOrder rt pts) @ [naiveOrder rt pts ! i]"
      using that g by (simp add: take_Suc_conv_app_nth)
    ultimately show ?thesis by simp
  qed
  have three: "waypoints (naive_route rt pts) = [Some A, Some B, Some C]"
    if p: "pts = [A, B, C]" and lt: "js_lt (haversine rt A B) (haversine rt A C)" for A B C
  proof -
    have f: "finite_num (haversine rt ([A, B, C] ! i) ([A, B, C] ! j))"
      if "i < 3" "j < 3" "i \<noteq> j" for i j
      using fin p that by simp
    have f01: "finite_num (haversine rt A B)" using f[of 0 1] by simp
    have f02: "finite_num (haversine rt A C)" using f[of 0 2] by simp
    have f12: "finite_num (haversine rt B C)" using f[of 1 2] by simp
    obtain ab ac where d: "haversine rt A B = Fin ab" "haversine rt A C = Fin ac"
      using f01 f02 finite_num_Fin by blast
    then have "ab < ac" using lt by simp
    then have "naiveOrder rt [A, B, C] = [0, 1, 2]"
      using naiveOrder_three[OF d f12] by simp
    then show ?thesis using p by (simp add: naive_route_def)
  qed
  show ?thesis
    using optimizeRoute_naive[OF pts sel] g fresh three
    by (simp add: naive_route_def)
qed

lemma hreal_quarter: "hreal 0 0 0 90 = 1 / 2"
proof -
  have "(90::real) * pi / 180 / 2 = pi / 4" by simp
  then have "hreal 0 0 0 90 = sin (pi / 4) * sin (pi / 4)" by (simp add: hreal_def)
  also have "\<dots> = 1 / 2" by (simp add: sin_45)
  finally show ?thesis .
qed

lemma hreal_half: "hreal 0 0 0 180 = 1"
proof -
  have "(180::real) * pi / 180 / 2 = pi / 2" by simp
  then show ?thesis by (simp add: hreal_def)
qed

lemma haversine_quarter:
  "haversine rt0 \<lparr>lat = Fin 0, lng = Fin 0\<rparr> \<lparr>lat = Fin 0, lng = Fin 90\<rparr> = Fin (6371000 * (pi / 2))"
proof -
  have "atan2 (sqrt (1 / 2)) (sqrt (1 - 1 / 2)) = pi / 4"
    by (simp add: atan2_def arctan_one real_sqrt_divide)
  then show ?thesis by (simp add: haversine_rt0 dist_real_def hreal_quarter)
qed

lemma haversine_half:
  "haversine rt0 \<lparr>lat = Fin 0, lng = Fin 0\<rparr> \<lparr>lat = Fin 0, lng = Fin 180\<rparr> = Fin (6371000 * pi)"
  by (simp add: haversine_rt0 dist_real_def hreal_half atan2_def)

lemma check_three_js_points:
  "check_points rt (JArr [js_point x1 y1, js_point x2 y2, js_point x3 y3])
     = Inr [\<lparr>lat = Fin x1, lng = Fin y1\<rparr>, \<lparr>lat = Fin x2, lng = Fin y2\<rparr>, \<lparr>lat = Fin x3, lng = Fin y3\<rparr>]"
  by (simp add: check_points_def valid_js_point)

lemma use_ors_only:
  "\<not> use_google (no_options\<lparr>provider := JStr ''ors''\<rparr>)"
  "\<not> use_osrm (no_options\<lparr>provider := JStr ''ors''\<rparr>)"
  by (simp_all add: use_google_def use_osrm_def no_options_def provider_of_def js_or_def)

lemma rt0_distances_finite:
  "\<forall>i<length [\<lparr>lat = Fin x1, lng = Fin y1\<rparr>, \<lparr>lat = Fin x2, lng = Fin y2\<rparr>,
                   \<lparr>lat = Fin x3, lng = Fin y3\<rparr>].
     \<forall>j<length [\<lparr>lat = Fin x1, lng = Fin y1\<rparr>, \<lparr>lat = Fin x2, lng = Fin y2\<rparr>,
                   \<lparr>lat = Fin x3, lng = Fin y3\<rparr>].
       i \<noteq> j \<longrightarrow>
         finite_num (haversine rt0
           ([\<lparr>lat = Fin x1, lng = Fin y1\<rparr>, \<lparr>lat = Fin x2, lng = Fin y2\<rparr>,
             \<lparr>lat = Fin x3, lng = Fin y3\<rparr>] ! i)
           ([\<lparr>lat = Fin x1, lng = Fin y1\<rparr>, \<lparr>lat = Fin x2, lng = Fin y2\<rparr>,
             \<lparr>lat = Fin x3, lng = Fin y3\<rparr>] ! j))"
  by (auto simp: less_Suc_eq haversine_rt0 finite_num_def)

theorem nearest_neighbour_route_witness:
  "optimizeRoute rt0 offline (JArr [js_point 0 0, js_point 0 180, js_point 0 90])
       (no_options\<lparr>provider := JStr ''ors''\<rparr>)
     = Inr (naive_route rt0 [\<lparr>lat = Fin 0, lng = Fin 0\<rparr>, \<lparr>lat = Fin 0, lng = Fin 180\<rparr>,
                         \<lparr>lat = Fin 0, lng = Fin 90\<rparr>])
   \<and> naiveOrder rt0 [\<lparr>lat = Fin 0, lng = Fin 0\<rparr>, \<lparr>lat = Fin 0, lng = Fin 180\<rparr>,
                  \<lparr>lat = Fin 0, lng = Fin 90\<rparr>] ! 0 = 0
   \<and> set (naiveOrder rt0 [\<lparr>lat = Fin 0, lng = Fin 0\<rparr>, \<lparr>lat = Fin 0, lng = Fin 180\<rparr>,
                  \<lparr>lat = Fin 0, lng = Fin 90\<rparr>]) = {0..<3}
   \<and> optimizeRoute rt0 offline (JArr [js_point 0 0, js_point 0 90, js_point 0 180])
       (no_options\<lparr>provider := JStr ''ors''\<rparr>)
     = Inr (naive_route rt0 [\<lparr>lat = Fin 0, lng = Fin 0\<rparr>, \<lparr>lat = Fin 0, lng = Fin 90\<rparr>,
                         \<lparr>lat = Fin 0, lng = Fin 180\<rparr>])
   \<and> waypoints (naive_route rt0 [\<lparr>lat = Fin 0, lng = Fin 0\<rparr>, \<lparr>lat = Fin 0, lng = Fin 90\<rparr>,
                         \<lparr>lat = Fin 0, lng = Fin 180\<rparr>])
     = [Some \<lparr>lat = Fin 0, lng = Fin 0\<rparr>, Some \<lparr>lat = Fin 0, lng = Fin 90\<rparr>,
        Some \<lparr>lat = Fin 0, lng = Fin 180\<rparr>]"
proof -
  let ?A = "\<lparr>lat = Fin 0, lng = Fin 0\<rparr>" and ?B = "\<lparr>lat = Fin 0, lng = Fin 90\<rparr>"
    and ?C = "\<lparr>lat = Fin 0, lng = Fin 180\<rparr>"
  note fin = rt0_distances_finite[of 0 0 0 180 0 90] rt0_distances_finite[of 0 0 0 90 0 180]
  have lt: "js_lt (haversine rt0 ?A ?B) (haversine rt0 ?A ?C)"
    by (simp add: haversine_quarter haversine_half)
  note t1 = nearest_neighbour_route
              [OF check_three_js_points[of rt0 0 0 0 180 0 90] use_ors_only fin(1), where net = offline]
  note t2 = nearest_neighbour_route
              [OF check_three_js_points[of rt0 0 0 0 90 0 180] use_ors_only fin(2), where net = offline]
  have a: "optimizeRoute rt0 offline (JArr [js_point 0 0, js_point 0 180, js_point 0 90])
             (no_options\<lparr>provider := JStr ''ors''\<rparr>) = Inr (naive_route rt0 [?A, ?C, ?B])"
    using t1 by - (elim conjE, assumption)
  have b: "naiveOrder rt0 [?A, ?C, ?B] ! 0 = 0"
    using t1 by - (elim conjE, assumption)
  have "set (naiveOrder rt0 [?A, ?C, ?B]) = {0..<length [?A, ?C, ?B]}"
    using t1 by - (elim conjE, assumption)
  then have c: "set (naiveOrder rt0 [?A, ?C, ?B]) = {0..<3}" by (simp add: numeral_3_eq_3)
  have d: "optimizeRoute rt0 offline (JArr [js_point 0 0, js_point 0 90, js_point 0 180])
             (no_options\<lparr>provider := JStr ''ors''\<rparr>) = Inr (naive_route rt0 [?A, ?B, ?C])"
    using t2 by - (elim conjE, assumption)
  have "\<forall>A B C. [?A, ?B, ?C] = [A, B, C] \<and> js_lt (haversine rt0 A B) (haversine rt0 A C)
          \<longrightarrow> waypoints (naive_route rt0 [?A, ?B, ?C]) = [Some A, Some B, Some C]"
    using t2 by - (elim conjE, assumption)
  then have e: "waypoints (naive_route rt0 [?A, ?B, ?C]) = [Some ?A, Some ?B, Some ?C]"
    using lt by blast
  show ?thesis using a b c d e by (intro conjI)
qed

text \<open>
  With the default options the OSRM branch is selected; when its request fails, nobody
  has optimized the route, and the call rejects: the heuristic is not run.
\<close>

theorem optimizeRoute_provider_failure_counterexample:
  "optimizeRoute rt0 offline (JArr [js_point 0 0, js_point 0 90, js_point 0 180]) no_options
     = Inl NetworkFailure"
  by (simp add: optimizeRoute_def check_three_js_points use_no_options offline_def fetchJson_def)

subsection \<open>\<open>optimizeRoute\<close>\<close>












lemma pts_at_numeral [simp]:
  "pts_at pts (JNum (Fin (numeral k))) = (if numeral k < length pts then Some (pts ! numeral k) else None)"
proof -
  have "\<lfloor>numeral k :: real\<rfloor> = numeral k" by simp
  then show ?thesis by (simp add: pts_at_def)
qed

lemma pts_at_one [simp]:
  "pts_at pts (JNum (Fin 1)) = (if 1 < length pts then Some (pts ! 1) else None)"
  by (simp add: pts_at_def)




text \<open>
  C7, at a failing input. With the default options (\<open>roundtrip\<close> absent, OSRM selected)
  and an OSRM document whose waypoints are snapped to the road network, \<open>waypoints\<close>
  holds the coordinates the provider reported: its first element is not the normalized
  first input point \<open>(0, 0)\<close>, and no element is an input point.
\<close>

theorem osrm_waypoints_are_provider_coordinates:
  "optimizeRoute rt0 osrm_snapped (JArr [js_point 0 0, js_point 0 90]) no_options
   = Inr \<lparr>waypoints = [Some \<lparr>lat = Fin (1 / 2), lng = Fin (1 / 4)\<rparr>,
                        Some \<lparr>lat = Fin (1 / 2), lng = Fin (361 / 4)\<rparr>],
          waypointsOrder = JNull,
          route_distance = JNum (Fin 1000), route_duration = JNum (Fin 60),
          route_provider = ''osrm''\<rparr>"
  by (simp add: optimizeRoute_def check_two_js_points use_no_options osrm_snapped_def
        fetchJson_def osrm_trip_def own_prop_def js_and_def osrm_order_def osrm_waypointOrder_def
        osrm_orderedPts_def sort_waypoints_def nullish_def waypoint_after_def waypoint_index_def
        js_sub_def osrm_point_def iter_values_def nth_or_undefined_def)

end
